theory Spec2Isabelle
  imports Complex_Main "HOL-Library.Monad_Syntax"
begin

section \<open>JavaScript values\<close>

text \<open>
  The scraped payloads are typed \<^verbatim>\<open>any\<close>: they are whatever \<^verbatim>\<open>JSON.parse\<close> produced.
  A value is one of the JSON shapes, or \<^verbatim>\<open>undefined\<close> (what reading a missing property
  gives). Strings are sequences of UTF-8 bytes; objects are association lists whose first
  binding of a key is the property (\<^verbatim>\<open>JSON.parse\<close> yields distinct keys). Numbers carry the
  exact decimal value; the rounding of a literal to the nearest double is not modelled.
\<close>

datatype json =
    JUndefined
  | JNull
  | JBool bool
  | JNum rat
  | JStr string
  | JArr "json list"
  | JObj "(string \<times> json) list"

text \<open>A \<^verbatim>\<open>number\<close> computed by the program: a finite value or \<^verbatim>\<open>NaN\<close>.\<close>

datatype jsnum = NaN | Num rat

text \<open>\<^verbatim>\<open>a === b\<close> on numbers: \<^verbatim>\<open>NaN\<close> is equal to nothing, itself included.\<close>

definition strict_eq :: "jsnum \<Rightarrow> jsnum \<Rightarrow> bool" where
  "strict_eq a b = (a \<noteq> NaN \<and> b \<noteq> NaN \<and> a = b)"

text \<open>
  What the program takes from its platform and not from its own source: the URL parser
  (\<^verbatim>\<open>new URL(u).hostname\<close>, \<open>None\<close> when the constructor throws), the printing of a number
  (\<^verbatim>\<open>String(n)\<close>) and the reading of a string as a number (\<^verbatim>\<open>Number(s)\<close>, as the
  comparison \<^verbatim>\<open>s > 0\<close> applies it).
\<close>

record platform =
  hostname_of :: "string \<Rightarrow> string option"
  number_to_string :: "rat \<Rightarrow> string"
  string_to_number :: "string \<Rightarrow> jsnum"

fun truthy :: "json \<Rightarrow> bool" where
  "truthy JUndefined = False"
| "truthy JNull = False"
| "truthy (JBool b) = b"
| "truthy (JNum r) = (r \<noteq> 0)"
| "truthy (JStr s) = (s \<noteq> [])"
| "truthy (JArr xs) = True"
| "truthy (JObj fs) = True"

fun nullish :: "json \<Rightarrow> bool" where
  "nullish JUndefined = True"
| "nullish JNull = True"
| "nullish v = False"

text \<open>\<^verbatim>\<open>a || b\<close> and \<^verbatim>\<open>a && b\<close> on values.\<close>

definition js_or :: "json \<Rightarrow> json \<Rightarrow> json" where
  "js_or a b = (if truthy a then a else b)"

definition js_and :: "json \<Rightarrow> json \<Rightarrow> json" where
  "js_and a b = (if truthy a then b else a)"

text \<open>
  \<^verbatim>\<open>v.k\<close> for a value \<open>v\<close> that is not \<^verbatim>\<open>null\<close> or \<^verbatim>\<open>undefined\<close>, and a key \<open>k\<close> that no
  prototype defines (every key the program reads but \<^verbatim>\<open>length\<close>): only an object can have
  it. Where the receiver may be \<^verbatim>\<open>null\<close> or \<^verbatim>\<open>undefined\<close> the caller models the TypeError.
\<close>

definition js_get :: "json \<Rightarrow> string \<Rightarrow> json" where
  "js_get v k = (case v of
      JObj fs \<Rightarrow> (case map_of fs k of Some x \<Rightarrow> x | None \<Rightarrow> JUndefined)
    | _ \<Rightarrow> JUndefined)"

text \<open>\<^verbatim>\<open>v?.k\<close>\<close>

definition optprop :: "json \<Rightarrow> string \<Rightarrow> json" where
  "optprop v k = (if nullish v then JUndefined else js_get v k)"

text \<open>
  \<^verbatim>\<open>v?.[0]\<close>: the first element of an array, the first character of a string (here its
  first byte: the caller only strips it or parses it as a digit).
\<close>

definition opt_index0 :: "json \<Rightarrow> json" where
  "opt_index0 v = (case v of
      JArr (x # xs) \<Rightarrow> x
    | JStr (c # cs) \<Rightarrow> JStr [c]
    | JObj fs \<Rightarrow> (case map_of fs ''0'' of Some x \<Rightarrow> x | None \<Rightarrow> JUndefined)
    | _ \<Rightarrow> JUndefined)"

text \<open>\<^verbatim>\<open>v?.length\<close>\<close>

definition opt_length :: "json \<Rightarrow> json" where
  "opt_length v = (case v of
      JArr xs \<Rightarrow> JNum (of_nat (length xs))
    | JStr s \<Rightarrow> JNum (of_nat (length s))
    | JObj fs \<Rightarrow> (case map_of fs ''length'' of Some x \<Rightarrow> x | None \<Rightarrow> JUndefined)
    | _ \<Rightarrow> JUndefined)"

fun join :: "string \<Rightarrow> string list \<Rightarrow> string" where
  "join sep [] = []"
| "join sep [x] = x"
| "join sep (x # y # ys) = x @ sep @ join sep (y # ys)"

text \<open>
  \<^verbatim>\<open>String(v)\<close> and the conversion a template literal applies. \<open>None\<close> is the TypeError
  "Cannot convert object to primitive value": an object parsed from JSON whose own key
  \<^verbatim>\<open>toString\<close> hides the inherited method. An array prints its elements joined by commas,
  \<^verbatim>\<open>null\<close> and \<^verbatim>\<open>undefined\<close> elements as the empty string.
\<close>

fun ToString :: "platform \<Rightarrow> json \<Rightarrow> string option" where
  "ToString P JUndefined = Some ''undefined''"
| "ToString P JNull = Some ''null''"
| "ToString P (JBool b) = Some (if b then ''true'' else ''false'')"
| "ToString P (JNum r) = Some (number_to_string P r)"
| "ToString P (JStr s) = Some s"
| "ToString P (JArr xs) =
     map_option (join '','')
       (those (map (\<lambda>x. if nullish x then Some [] else ToString P x) xs))"
| "ToString P (JObj fs) =
     (if ''toString'' \<in> fst ` set fs then None else Some ''[object Object]'')"

text \<open>\<^verbatim>\<open>v > 0\<close>: the value is converted to a number first; \<open>None\<close> when the conversion throws.\<close>

definition num_gt_0 :: "jsnum \<Rightarrow> bool" where
  "num_gt_0 n = (case n of NaN \<Rightarrow> False | Num r \<Rightarrow> 0 < r)"

definition js_gt_0 :: "platform \<Rightarrow> json \<Rightarrow> bool option" where
  "js_gt_0 P v = (case v of
      JUndefined \<Rightarrow> Some False
    | JNull \<Rightarrow> Some False
    | JBool b \<Rightarrow> Some b
    | JNum r \<Rightarrow> Some (0 < r)
    | JStr s \<Rightarrow> Some (num_gt_0 (string_to_number P s))
    | _ \<Rightarrow> map_option (\<lambda>s. num_gt_0 (string_to_number P s)) (ToString P v))"

section \<open>Strings\<close>

fun starts_with :: "string \<Rightarrow> string \<Rightarrow> bool" where
  "starts_with s [] = True"
| "starts_with [] (c # p) = False"
| "starts_with (a # s) (c # p) = (a = c \<and> starts_with s p)"

text \<open>\<^verbatim>\<open>s.includes(t)\<close>\<close>

fun str_includes :: "string \<Rightarrow> string \<Rightarrow> bool" where
  "str_includes [] t = (t = [])"
| "str_includes (a # s) t = (starts_with (a # s) t \<or> str_includes s t)"

text \<open>\<^verbatim>\<open>s.split(c)\<close> for a one-character separator: never the empty list.\<close>

fun split_on :: "char \<Rightarrow> string \<Rightarrow> string list" where
  "split_on c [] = [[]]"
| "split_on c (a # s) =
     (if a = c then [] # split_on c s
      else (case split_on c s of [] \<Rightarrow> [[a]] | p # ps \<Rightarrow> (a # p) # ps))"

text \<open>\<^verbatim>\<open>xs.slice(-n)\<close>: the last \<open>n\<close> elements.\<close>

definition slice_last :: "nat \<Rightarrow> 'a list \<Rightarrow> 'a list" where
  "slice_last n xs = drop (length xs - n) xs"

section \<open>Canonical and stored entities\<close>

text \<open>
  The records keep the fields the properties below read: the identifier, the name, the price
  and the provenance block. The other fields of \<^verbatim>\<open>Product\<close> and \<^verbatim>\<open>RealEstateListing\<close> (media,
  availability, rating, location, details, the raw record) are copied through by the store
  and are left out; so is \<^verbatim>\<open>scrapedAt\<close>. \<^verbatim>\<open>productId\<close>, \<^verbatim>\<open>name\<close> and \<^verbatim>\<open>url\<close> are declared
  \<^verbatim>\<open>string\<close> but hold whatever value the raw record had, so they are values here. A \<^verbatim>\<open>Date\<close>
  is its \<^verbatim>\<open>getTime()\<close>. The version counter is a natural number (the source's double counts
  exactly below \<open>2^53\<close>). The field \<^verbatim>\<open>type\<close> of a price is \<open>price_type\<close> here.
\<close>

record Price =
  amount :: jsnum
  currency :: string

record ProductPrice = Price +
  label :: json
  isCrossed :: json
  price_type :: json

record Source =
  domain :: string
  url :: json
  jobId :: "string option"

record PriceRecord =
  price :: ProductPrice
  recordedAt :: nat

record Product =
  productId :: json
  name :: json
  price :: ProductPrice
  source :: Source

record StoredProduct = Product +
  uniqueKey :: string
  firstSeenAt :: nat
  lastSeenAt :: nat
  lastUpdatedAt :: nat
  priceHistory :: "PriceRecord list"
  version :: nat

record ListingPrice = Price +
  period :: "string option"

record PriceChange = Price +
  changedAt :: nat

record RealEstateListing =
  listingId :: string
  source :: Source
  title :: json
  price :: ListingPrice

record StoredListing = RealEstateListing +
  uniqueKey :: string
  firstSeenAt :: nat
  lastSeenAt :: nat
  lastUpdatedAt :: nat
  priceHistory :: "PriceChange list option"

section \<open>ProductStorageService\<close>

text \<open>
  The collection is a map from \<^verbatim>\<open>uniqueKey\<close> (its unique index) to the stored document; the
  service holds it once connected (\<^verbatim>\<open>collection: Collection | null\<close>). A failure of the
  database itself is outside the model.
\<close>

type_synonym ProductStorageService = "(string \<rightharpoonup> StoredProduct) option"

text \<open>
  What \<^verbatim>\<open>upsertProduct\<close> throws by itself: the error of a service that is not connected, and
  the TypeError of building the key from an identifier that has no string form.
\<close>

datatype store_error =
    NotConnected
  | KeyConversionError

text \<open>\<^verbatim>\<open>`${domain}:${productId}`\<close>\<close>

definition ProductStorage_generateUniqueKey :: "platform \<Rightarrow> string \<Rightarrow> json \<Rightarrow> string option" where
  "ProductStorage_generateUniqueKey P d pid = map_option (\<lambda>i. d @ '':'' @ i) (ToString P pid)"

text \<open>The key of a product: \<^verbatim>\<open>generateUniqueKey(product.source.domain, product.productId)\<close>.\<close>

definition Product_uniqueKey :: "platform \<Rightarrow> Product \<Rightarrow> string option" where
  "Product_uniqueKey P product =
     ProductStorage_generateUniqueKey P (domain (Product.source product)) (productId product)"

definition priceChanged :: "ProductPrice \<Rightarrow> ProductPrice \<Rightarrow> bool" where
  "priceChanged oldPrice newPrice =
     (\<not> strict_eq (amount oldPrice) (amount newPrice) \<or> currency oldPrice \<noteq> currency newPrice)"

text \<open>The document written by the update branch (\<^verbatim>\<open>updates\<close>) and by the insert branch (\<^verbatim>\<open>storedProduct\<close>).\<close>

definition ProductStorage_updates :: "StoredProduct \<Rightarrow> string \<Rightarrow> nat \<Rightarrow> Product \<Rightarrow> StoredProduct" where
  "ProductStorage_updates existing key now product =
     \<lparr> productId = productId product,
       name = name product,
       Product.price = Product.price product,
       Product.source = Product.source product,
       StoredProduct.uniqueKey = key,
       StoredProduct.firstSeenAt = StoredProduct.firstSeenAt existing,
       StoredProduct.lastSeenAt = now,
       StoredProduct.lastUpdatedAt = now,
       StoredProduct.priceHistory =
         (if priceChanged (Product.price existing) (Product.price product)
          then (let h = StoredProduct.priceHistory existing @
                      [\<lparr> PriceRecord.price = Product.price product, recordedAt = now \<rparr>]
                in if 100 < length h then slice_last 100 h else h)
          else StoredProduct.priceHistory existing),
       version = version existing + 1 \<rparr>"

definition ProductStorage_storedProduct :: "string \<Rightarrow> nat \<Rightarrow> Product \<Rightarrow> StoredProduct" where
  "ProductStorage_storedProduct key now product =
     \<lparr> productId = productId product,
       name = name product,
       Product.price = Product.price product,
       Product.source = Product.source product,
       StoredProduct.uniqueKey = key,
       StoredProduct.firstSeenAt = now,
       StoredProduct.lastSeenAt = now,
       StoredProduct.lastUpdatedAt = now,
       StoredProduct.priceHistory =
         [\<lparr> PriceRecord.price = Product.price product, recordedAt = now \<rparr>],
       version = 1 \<rparr>"

text \<open>
  \<^verbatim>\<open>upsertProduct\<close>: the connection check, the key (computed before the \<^verbatim>\<open>try\<close>), then
  \<^verbatim>\<open>findOne\<close> and either \<^verbatim>\<open>updateOne\<close> with \<^verbatim>\<open>$set\<close> or \<^verbatim>\<open>insertOne\<close>.
\<close>

definition upsertProduct ::
  "platform \<Rightarrow> ProductStorageService \<Rightarrow> nat \<Rightarrow> Product \<Rightarrow> store_error + ProductStorageService" where
  "upsertProduct P svc now product =
     (case svc of
        None \<Rightarrow> Inl NotConnected
      | Some coll \<Rightarrow>
          (case Product_uniqueKey P product of
             None \<Rightarrow> Inl KeyConversionError
           | Some key \<Rightarrow>
               (case coll key of
                  Some existing \<Rightarrow>
                    Inr (Some (coll(key \<mapsto> ProductStorage_updates existing key now product)))
                | None \<Rightarrow>
                    Inr (Some (coll(key \<mapsto> ProductStorage_storedProduct key now product))))))"

text \<open>Successive calls of \<^verbatim>\<open>upsertProduct\<close>, each at its own time, stopping at the first that throws.\<close>

fun upsertProduct_calls ::
  "platform \<Rightarrow> ProductStorageService \<Rightarrow> (nat \<times> Product) list \<Rightarrow> store_error + ProductStorageService" where
  "upsertProduct_calls P svc [] = Inr svc"
| "upsertProduct_calls P svc ((now, product) # rest) =
     (case upsertProduct P svc now product of
        Inl e \<Rightarrow> Inl e
      | Inr svc' \<Rightarrow> upsertProduct_calls P svc' rest)"

section \<open>RealEstateStorageService\<close>

type_synonym RealEstateStorageService = "(string \<rightharpoonup> StoredListing) option"

definition RealEstateStorage_generateUniqueKey :: "string \<Rightarrow> string \<Rightarrow> string" where
  "RealEstateStorage_generateUniqueKey d lid = d @ '':'' @ lid"

definition Listing_uniqueKey :: "RealEstateListing \<Rightarrow> string" where
  "Listing_uniqueKey listing =
     RealEstateStorage_generateUniqueKey (domain (RealEstateListing.source listing)) (listingId listing)"

definition RealEstateStorage_updates :: "StoredListing \<Rightarrow> string \<Rightarrow> nat \<Rightarrow> RealEstateListing \<Rightarrow> StoredListing" where
  "RealEstateStorage_updates existing key now listing =
     \<lparr> listingId = listingId listing,
       RealEstateListing.source = RealEstateListing.source listing,
       title = title listing,
       RealEstateListing.price = RealEstateListing.price listing,
       StoredListing.uniqueKey = key,
       StoredListing.firstSeenAt = StoredListing.firstSeenAt existing,
       StoredListing.lastSeenAt = now,
       StoredListing.lastUpdatedAt = now,
       StoredListing.priceHistory =
         (if \<not> strict_eq (amount (RealEstateListing.price listing))
                          (amount (RealEstateListing.price existing))
          then Some ((case StoredListing.priceHistory existing of None \<Rightarrow> [] | Some h \<Rightarrow> h) @
                     [\<lparr> amount = amount (RealEstateListing.price existing),
                        currency = currency (RealEstateListing.price existing),
                        changedAt = now \<rparr>])
          else StoredListing.priceHistory existing) \<rparr>"

definition RealEstateStorage_newListing :: "string \<Rightarrow> nat \<Rightarrow> RealEstateListing \<Rightarrow> StoredListing" where
  "RealEstateStorage_newListing key now listing =
     \<lparr> listingId = listingId listing,
       RealEstateListing.source = RealEstateListing.source listing,
       title = title listing,
       RealEstateListing.price = RealEstateListing.price listing,
       StoredListing.uniqueKey = key,
       StoredListing.firstSeenAt = now,
       StoredListing.lastSeenAt = now,
       StoredListing.lastUpdatedAt = now,
       StoredListing.priceHistory = Some [] \<rparr>"

definition upsertListing ::
  "RealEstateStorageService \<Rightarrow> nat \<Rightarrow> RealEstateListing \<Rightarrow> store_error + RealEstateStorageService" where
  "upsertListing svc now listing =
     (case svc of
        None \<Rightarrow> Inl NotConnected
      | Some coll \<Rightarrow>
          (let key = Listing_uniqueKey listing
           in case coll key of
                Some existing \<Rightarrow>
                  Inr (Some (coll(key \<mapsto> RealEstateStorage_updates existing key now listing)))
              | None \<Rightarrow>
                  Inr (Some (coll(key \<mapsto> RealEstateStorage_newListing key now listing)))))"

fun upsertListing_calls ::
  "RealEstateStorageService \<Rightarrow> (nat \<times> RealEstateListing) list \<Rightarrow> store_error + RealEstateStorageService" where
  "upsertListing_calls svc [] = Inr svc"
| "upsertListing_calls svc ((now, listing) # rest) =
     (case upsertListing svc now listing of
        Inl e \<Rightarrow> Inl e
      | Inr svc' \<Rightarrow> upsertListing_calls svc' rest)"

section \<open>Domain canonicalizers\<close>

text \<open>\<^verbatim>\<open>hostname.replace(/^www\./, '')\<close>\<close>

definition strip_www :: "string \<Rightarrow> string" where
  "strip_www h = (if starts_with h ''www.'' then drop 4 h else h)"

text \<open>\<^verbatim>\<open>StorageService.extractDomain\<close>: the domain that tags the stored raw-job record.\<close>

definition StorageService_extractDomain :: "platform \<Rightarrow> string \<Rightarrow> string" where
  "StorageService_extractDomain P u =
     (case hostname_of P u of
        None \<Rightarrow> ''unknown''
      | Some hostname \<Rightarrow>
          (let withoutWww = strip_www hostname;
               parts = split_on CHR ''.'' withoutWww;
               commonSLDs = [''com'', ''co'', ''org'', ''net'', ''gov'', ''edu'', ''ac'']
           in if 3 \<le> length parts then
                (let secondToLast = parts ! (length parts - 2)
                 in if secondToLast \<in> set commonSLDs then parts ! (length parts - 3)
                    else parts ! (length parts - 2))
              else if length parts = 2 then parts ! 0
              else parts ! 0))"

text \<open>\<^verbatim>\<open>BaseExtractionStrategy.extractDomain\<close>: the domain of an entity's provenance block.\<close>

definition BaseExtractionStrategy_extractDomain :: "platform \<Rightarrow> string \<Rightarrow> string" where
  "BaseExtractionStrategy_extractDomain P u =
     (case hostname_of P u of
        None \<Rightarrow> ''unknown''
      | Some h \<Rightarrow>
          (let hostname = strip_www h;
               parts = split_on CHR ''.'' hostname;
               commonSLDs = [''com'', ''co'', ''org'', ''net'', ''gov'', ''edu'']
           in if 3 \<le> length parts then
                (let secondToLast = parts ! (length parts - 2)
                 in if secondToLast \<in> set commonSLDs then parts ! (length parts - 3)
                    else parts ! (length parts - 2))
              else parts ! 0))"

section \<open>Field normalization (BaseExtractionStrategy)\<close>

definition is_digit :: "char \<Rightarrow> bool" where
  "is_digit c = (c \<in> set ''0123456789'')"

definition decimal_value :: "string \<Rightarrow> nat" where
  "decimal_value ds = foldl (\<lambda>n c. 10 * n + (of_char c - 48)) 0 ds"

text \<open>
  \<^verbatim>\<open>parseFloat\<close> on a string of digits and dots: the value of its longest prefix that is a
  decimal literal (digits, then possibly a dot and digits), \<^verbatim>\<open>NaN\<close> when that prefix has no
  digit. The value is the exact decimal.
\<close>

definition parseFloat_cleaned :: "string \<Rightarrow> jsnum" where
  "parseFloat_cleaned s =
     (let ip = takeWhile is_digit s;
          fp = (case dropWhile is_digit s of
                  [] \<Rightarrow> []
                | c # r \<Rightarrow> if c = CHR ''.'' then takeWhile is_digit r else [])
      in if ip = [] \<and> fp = [] then NaN
         else Num (of_nat (decimal_value ip) + of_nat (decimal_value fp) / 10 ^ length fp))"

text \<open>
  \<^verbatim>\<open>parsePrice\<close>: a number is returned as it is; a string loses every character that is not a
  digit or a dot and is parsed, 0 when that fails. \<open>None\<close> is the TypeError of calling
  \<^verbatim>\<open>replace\<close> on a value that has no such method.
\<close>

definition parsePrice :: "json \<Rightarrow> jsnum option" where
  "parsePrice priceStr =
     (case priceStr of
        JNum r \<Rightarrow> Some (Num r)
      | JStr s \<Rightarrow>
          (let cleaned = filter (\<lambda>c. is_digit c \<or> c = CHR ''.'') s
           in Some (case parseFloat_cleaned cleaned of NaN \<Rightarrow> Num 0 | Num r \<Rightarrow> Num r))
      | _ \<Rightarrow> None)"

text \<open>
  The symbol table of \<^verbatim>\<open>extractCurrency\<close>, in the order \<^verbatim>\<open>Object.entries\<close> visits it. The
  euro, pound and yen signs are their UTF-8 bytes.
\<close>

definition currencyMap :: "(string \<times> string) list" where
  "currencyMap =
     [ (''S/'', ''PEN''),
       (''$'', ''USD''),
       ([CHR 0xE2, CHR 0x82, CHR 0xAC], ''EUR''),
       ([CHR 0xC2, CHR 0xA3], ''GBP''),
       ([CHR 0xC2, CHR 0xA5], ''JPY''),
       (''R$'', ''BRL''),
       (''ARS'', ''ARS''),
       (''COP'', ''COP''),
       (''CLP'', ''CLP'') ]"

fun first_code :: "(string \<Rightarrow> bool) \<Rightarrow> (string \<times> string) list \<Rightarrow> string" where
  "first_code hit [] = ''USD''"
| "first_code hit ((symbol, code) # rest) = (if hit symbol then code else first_code hit rest)"

definition extractCurrency :: "string \<Rightarrow> string" where
  "extractCurrency str = first_code (str_includes str) currencyMap"

text \<open>
  \<^verbatim>\<open>extractCurrency\<close> called with whatever the raw record holds: on an array \<^verbatim>\<open>includes\<close> is
  the membership test, on any other value but a string it is no method (\<open>None\<close>: TypeError).
\<close>

definition extractCurrency_of :: "json \<Rightarrow> string option" where
  "extractCurrency_of v =
     (case v of
        JStr s \<Rightarrow> Some (extractCurrency s)
      | JArr xs \<Rightarrow> Some (first_code (\<lambda>symbol. JStr symbol \<in> set xs) currencyMap)
      | _ \<Rightarrow> None)"

text \<open>\<^verbatim>\<open>...(jobId && { jobId })\<close>\<close>

definition source_jobId :: "string option \<Rightarrow> string option" where
  "source_jobId j = (case j of None \<Rightarrow> None | Some i \<Rightarrow> if i = [] then None else Some i)"

definition createBaseProduct ::
  "string \<Rightarrow> string \<Rightarrow> ProductPrice \<Rightarrow> string \<Rightarrow> string \<Rightarrow> string option \<Rightarrow> Product" where
  "createBaseProduct pid nm pr d u j =
     \<lparr> productId = JStr pid,
       name = JStr nm,
       Product.price = pr,
       Product.source = \<lparr> domain = d, url = JStr u, jobId = source_jobId j \<rparr> \<rparr>"

text \<open>A callback applied to each element in turn; the first that throws ends the call.\<close>

fun filter_throwing :: "('a \<Rightarrow> bool option) \<Rightarrow> 'a list \<Rightarrow> 'a list option" where
  "filter_throwing f [] = Some []"
| "filter_throwing f (x # xs) =
     (case f x of
        None \<Rightarrow> None
      | Some b \<Rightarrow> map_option (\<lambda>ys. if b then x # ys else ys) (filter_throwing f xs))"

definition map_throwing :: "('a \<Rightarrow> 'b option) \<Rightarrow> 'a list \<Rightarrow> 'b list option" where
  "map_throwing f xs = those (map f xs)"

text \<open>\<^verbatim>\<open>v?.length > 0\<close>\<close>

definition has_length :: "platform \<Rightarrow> json \<Rightarrow> bool option" where
  "has_length P v = js_gt_0 P (opt_length v)"

section \<open>FalabellaStrategy\<close>

definition Falabella_canHandle :: "json \<Rightarrow> string \<Rightarrow> bool" where
  "Falabella_canHandle d u =
     (let isFalabellaUrl = str_includes u ''falabella.com'';
          hasNextJsStructure =
            (optprop (optprop (optprop d ''props'') ''pageProps'') ''results'' \<noteq> JUndefined);
          hasFalabellaProducts =
            (case d of
               JArr (x # xs) \<Rightarrow>
                 optprop x ''displayName'' \<noteq> JUndefined \<and> optprop x ''mediaUrls'' \<noteq> JUndefined
             | _ \<Rightarrow> False)
      in isFalabellaUrl \<or> hasNextJsStructure \<or> hasFalabellaProducts)"

text \<open>
  \<^verbatim>\<open>item.prices.find((p) => p.type === 'internetPrice')\<close>: the first entry of that type,
  \<^verbatim>\<open>undefined\<close> when there is none; \<open>None\<close> when an entry visited is \<^verbatim>\<open>null\<close>.
\<close>

fun find_internetPrice :: "json list \<Rightarrow> json option" where
  "find_internetPrice [] = Some JUndefined"
| "find_internetPrice (p # ps) =
     (if nullish p then None
      else if js_get p ''type'' = JStr ''internetPrice'' then Some p
      else find_internetPrice ps)"

text \<open>The price entry \<^verbatim>\<open>extractPrice\<close> reads: \<^verbatim>\<open>find(...) || item.prices[0]\<close>.\<close>

definition Falabella_internetPrice :: "json list \<Rightarrow> json option" where
  "Falabella_internetPrice prices =
     map_option (\<lambda>found. js_or found (hd prices)) (find_internetPrice prices)"

definition Falabella_extractPrice :: "platform \<Rightarrow> json \<Rightarrow> ProductPrice option" where
  "Falabella_extractPrice P item =
     (case js_get item ''prices'' of
        JArr (p0 # ps) \<Rightarrow>
          do {
            internetPrice \<leftarrow> Falabella_internetPrice (p0 # ps);
            a \<leftarrow> parsePrice (js_or (opt_index0 (js_get internetPrice ''price''))
                              (js_or (js_get internetPrice ''price'') (JStr ''0'')));
            c \<leftarrow> extractCurrency_of (js_or (js_get internetPrice ''symbol'') (JStr ''S/ ''));
            Some \<lparr> amount = a, currency = c,
                   label = js_get internetPrice ''label'',
                   isCrossed = js_get internetPrice ''crossed'',
                   price_type = js_get internetPrice ''type'' \<rparr>
          }
      | _ \<Rightarrow>
          do {
            priceStr \<leftarrow> ToString P (js_or (js_get item ''price'') (JStr ''0''));
            a \<leftarrow> parsePrice (JStr priceStr);
            Some \<lparr> amount = a, currency = extractCurrency priceStr,
                   label = JUndefined, isCrossed = JUndefined, price_type = JUndefined \<rparr>
          })"

text \<open>\<^verbatim>\<open>item.meatStickers?.some((s) => s.type === 'next_day') || false\<close>\<close>

fun some_next_day :: "json list \<Rightarrow> bool option" where
  "some_next_day [] = Some False"
| "some_next_day (s # ss) =
     (if nullish s then None
      else if js_get s ''type'' = JStr ''next_day'' then Some True
      else some_next_day ss)"

definition Falabella_nextDay :: "json \<Rightarrow> bool option" where
  "Falabella_nextDay meatStickers =
     (if nullish meatStickers then Some False
      else (case meatStickers of JArr xs \<Rightarrow> some_next_day xs | _ \<Rightarrow> None))"

text \<open>
  \<^verbatim>\<open>if (item.topSpecifications?.length > 0) ... arrayToObject(item.topSpecifications)\<close>: only
  an array has the \<^verbatim>\<open>forEach\<close> that \<^verbatim>\<open>arrayToObject\<close> calls.
\<close>

definition Falabella_specifications :: "platform \<Rightarrow> json \<Rightarrow> unit option" where
  "Falabella_specifications P topSpecifications =
     do {
       b \<leftarrow> has_length P topSpecifications;
       if b then (case topSpecifications of JArr xs \<Rightarrow> Some () | _ \<Rightarrow> None) else Some ()
     }"

text \<open>
  \<^verbatim>\<open>normalizeProduct\<close>. \<open>None\<close> is a TypeError. The statements that compute fields the record
  leaves out are kept where they can throw.
\<close>

definition Falabella_normalizeProduct ::
  "platform \<Rightarrow> json \<Rightarrow> string \<Rightarrow> string \<Rightarrow> string option \<Rightarrow> Product option" where
  "Falabella_normalizeProduct P item d sourceUrl j =
     (if nullish item then None
      else do {
        let pid = js_or (js_get item ''productId'') (js_or (js_get item ''skuId'') (JStr []));
        pr \<leftarrow> Falabella_extractPrice P item;
        nextDay \<leftarrow> Falabella_nextDay (js_get item ''meatStickers'');
        variants \<leftarrow> has_length P (js_get item ''variants'');
        specifications \<leftarrow> Falabella_specifications P (js_get item ''topSpecifications'');
        badges \<leftarrow> has_length P (js_get item ''badges'');
        promotions \<leftarrow> has_length P (js_get item ''promotions'');
        Some \<lparr> productId = pid,
               name = js_or (js_get item ''displayName'') (JStr []),
               Product.price = pr,
               Product.source = \<lparr> domain = d,
                                  url = js_or (js_get item ''url'') (JStr sourceUrl),
                                  jobId = source_jobId j \<rparr> \<rparr>
      })"

text \<open>The filter of \<^verbatim>\<open>extract\<close>: \<^verbatim>\<open>item.productId && item.displayName\<close>.\<close>

definition Falabella_keeps :: "json \<Rightarrow> bool option" where
  "Falabella_keeps item =
     (if nullish item then None
      else Some (truthy (js_and (js_get item ''productId'') (js_get item ''displayName''))))"

text \<open>\<^verbatim>\<open>extract\<close>: the body of its \<^verbatim>\<open>try\<close>, and the whole with the \<^verbatim>\<open>catch\<close> that returns \<^verbatim>\<open>[]\<close>.\<close>

definition Falabella_extract_try :: "platform \<Rightarrow> json \<Rightarrow> string \<Rightarrow> string option \<Rightarrow> Product list option" where
  "Falabella_extract_try P d u j =
     (let results = optprop (optprop (optprop d ''props'') ''pageProps'') ''results'';
          products =
            (if truthy results then results
             else (case d of
                     JArr xs \<Rightarrow> d
                   | _ \<Rightarrow> if truthy (js_and (optprop d ''productId'') (optprop d ''displayName''))
                          then JArr [d] else JArr []));
          dom = BaseExtractionStrategy_extractDomain P u
      in case products of
           JArr items \<Rightarrow>
             do {
               kept \<leftarrow> filter_throwing Falabella_keeps items;
               map_throwing (\<lambda>item. Falabella_normalizeProduct P item dom u j) kept
             }
         | _ \<Rightarrow> None)"

definition Falabella_extract :: "platform \<Rightarrow> json \<Rightarrow> string \<Rightarrow> string option \<Rightarrow> Product list" where
  "Falabella_extract P d u j =
     (case Falabella_extract_try P d u j of None \<Rightarrow> [] | Some ps \<Rightarrow> ps)"

section \<open>GenericStrategy\<close>

definition Generic_canHandle :: "json \<Rightarrow> string \<Rightarrow> bool" where
  "Generic_canHandle d u = True"

text \<open>\<^verbatim>\<open>typeof v === 'object'\<close>\<close>

fun typeof_object :: "json \<Rightarrow> bool" where
  "typeof_object JNull = True"
| "typeof_object (JArr xs) = True"
| "typeof_object (JObj fs) = True"
| "typeof_object v = False"

definition looksLikeProduct :: "json \<Rightarrow> bool" where
  "looksLikeProduct item =
     (if \<not> truthy item \<or> \<not> typeof_object item then False
      else (let hasId = truthy (js_or (js_get item ''id'') (js_or (js_get item ''productId'')
                          (js_or (js_get item ''sku'') (js_or (js_get item ''skuId'')
                            (js_get item ''asin'')))));
                hasName = truthy (js_or (js_get item ''name'') (js_or (js_get item ''title'')
                            (js_or (js_get item ''displayName'') (js_get item ''productName''))))
            in hasId \<and> hasName))"

definition Generic_extractPrice :: "json \<Rightarrow> ProductPrice option" where
  "Generic_extractPrice item =
     (let priceValue = js_or (js_get item ''price'') (js_or (js_get item ''currentPrice'')
                         (js_or (js_get item ''salePrice'') (js_or (js_get item ''amount'') (JNum 0))))
      in do {
        c \<leftarrow> (if truthy (js_get item ''currency'') then Some (js_get item ''currency'')
              else if truthy (js_get item ''priceSymbol'')
                   then map_option JStr (extractCurrency_of (js_get item ''priceSymbol''))
                   else Some (JStr ''USD''));
        a \<leftarrow> parsePrice priceValue;
        Some \<lparr> amount = a,
               currency = (case c of JStr s \<Rightarrow> s | _ \<Rightarrow> ''USD''),
               label = JUndefined, isCrossed = JUndefined, price_type = JUndefined \<rparr>
      })"

text \<open>\<^verbatim>\<open>if (v) ... String(v)\<close>: the conversion happens only for a truthy value.\<close>

definition String_if_truthy :: "platform \<Rightarrow> json \<Rightarrow> string option option" where
  "String_if_truthy P v = (if truthy v then map_option Some (ToString P v) else Some None)"

definition typeof_string :: "json \<Rightarrow> bool" where
  "typeof_string v = (case v of JStr s \<Rightarrow> True | _ \<Rightarrow> False)"

definition Generic_extractImageUrls :: "platform \<Rightarrow> json \<Rightarrow> json list option" where
  "Generic_extractImageUrls P item =
     map_option (filter (\<lambda>v. typeof_string v \<and> truthy v))
       (case js_get item ''images'' of
          JArr imgs \<Rightarrow>
            map_throwing (\<lambda>img. if typeof_string img then Some img
                                else if nullish img then None
                                else Some (js_get img ''url'')) imgs
        | _ \<Rightarrow>
         (case js_get item ''imageUrls'' of
            JArr us \<Rightarrow> Some us
          | _ \<Rightarrow>
           (case js_get item ''mediaUrls'' of
              JArr us \<Rightarrow> Some us
            | _ \<Rightarrow>
               if truthy (js_get item ''image'')
               then map_option (\<lambda>s. [JStr s]) (ToString P (js_get item ''image''))
               else if truthy (js_get item ''imageUrl'')
               then map_option (\<lambda>s. [JStr s]) (ToString P (js_get item ''imageUrl''))
               else Some [])))"

definition Generic_normalizeProduct ::
  "platform \<Rightarrow> json \<Rightarrow> string \<Rightarrow> string \<Rightarrow> string option \<Rightarrow> Product option" where
  "Generic_normalizeProduct P item d sourceUrl j =
     (if nullish item then None
      else do {
        pid \<leftarrow> ToString P (js_or (js_get item ''id'') (js_or (js_get item ''productId'')
                 (js_or (js_get item ''sku'') (js_or (js_get item ''skuId'')
                   (js_or (js_get item ''asin'') (JStr []))))));
        nm \<leftarrow> ToString P (js_or (js_get item ''name'') (js_or (js_get item ''title'')
                 (js_or (js_get item ''displayName'') (JStr ''Unknown Product''))));
        pr \<leftarrow> Generic_extractPrice item;
        let product = createBaseProduct pid nm pr d sourceUrl j;
        brand \<leftarrow> String_if_truthy P (js_get item ''brand'');
        description \<leftarrow> String_if_truthy P (js_get item ''description'');
        category \<leftarrow> String_if_truthy P (js_get item ''category'');
        imageUrls \<leftarrow> Generic_extractImageUrls P item;
        seoUrl \<leftarrow> String_if_truthy P (js_or (js_get item ''url'') (js_get item ''link''));
        Some product
      })"

definition Generic_extract_try :: "platform \<Rightarrow> json \<Rightarrow> string \<Rightarrow> string option \<Rightarrow> Product list option" where
  "Generic_extract_try P d u j =
     (let is_array = (\<lambda>v. case v of JArr xs \<Rightarrow> True | _ \<Rightarrow> False);
          products =
            (if is_array d then d
             else if truthy (optprop d ''products'') \<and> is_array (optprop d ''products'')
               then optprop d ''products''
             else if truthy (optprop d ''items'') \<and> is_array (optprop d ''items'')
               then optprop d ''items''
             else if truthy (optprop d ''results'') \<and> is_array (optprop d ''results'')
               then optprop d ''results''
             else if looksLikeProduct d then JArr [d]
             else JArr []);
          dom = BaseExtractionStrategy_extractDomain P u
      in case products of
           JArr items \<Rightarrow>
             map_throwing (\<lambda>item. Generic_normalizeProduct P item dom u j)
               (filter looksLikeProduct items)
         | _ \<Rightarrow> None)"

definition Generic_extract :: "platform \<Rightarrow> json \<Rightarrow> string \<Rightarrow> string option \<Rightarrow> Product list" where
  "Generic_extract P d u j =
     (case Generic_extract_try P d u j of None \<Rightarrow> [] | Some ps \<Rightarrow> ps)"

section \<open>UrbaniaStrategy\<close>

definition Urbania_canHandle :: "json \<Rightarrow> string \<Rightarrow> bool" where
  "Urbania_canHandle d u = str_includes u ''urbania.pe''"

text \<open>
  The provenance block \<^verbatim>\<open>parseJsonListing\<close> gives a listing; the two other places that build
  a listing (\<^verbatim>\<open>extractFromHTML\<close>, \<^verbatim>\<open>parseJsonLdEntity\<close>) assign the same literal domain.
\<close>

definition Urbania_parseJsonListing_source :: "json \<Rightarrow> string \<Rightarrow> string option \<Rightarrow> Source" where
  "Urbania_parseJsonListing_source item u j =
     \<lparr> domain = ''urbania.pe'',
       url = js_or (js_get item ''url'') (js_or (js_get item ''link'') (JStr u)),
       jobId = j \<rparr>"

section \<open>Extraction orchestrators\<close>

text \<open>
  What a strategy's method can throw: an \<^verbatim>\<open>Error\<close> with its message, or any other value.
\<close>

datatype thrown =
    ThrownError string
  | ThrownOther

text \<open>
  The \<^verbatim>\<open>ExtractionStrategy\<close> interface. Any object with these members can be registered, so
  both methods may throw. The method \<^verbatim>\<open>extract\<close> is \<open>extract'\<close> here.
\<close>

record 'e ExtractionStrategy =
  name :: string
  canHandle :: "json \<Rightarrow> string \<Rightarrow> thrown + bool"
  extract' :: "json \<Rightarrow> string \<Rightarrow> string option \<Rightarrow> thrown + 'e list"

record ExtractionMetadata =
  totalExtracted :: nat
  source :: string
  extractedAt :: nat
  strategyUsed :: "string option"
  errors :: "string list option"

record ProductExtractionResult =
  products :: "Product list"
  metadata :: ExtractionMetadata

record RealEstateExtractionResult =
  listings :: "RealEstateListing list"
  metadata :: ExtractionMetadata

text \<open>The three strategies of the repository; none of their methods throws.\<close>

definition FalabellaStrategy :: "platform \<Rightarrow> Product ExtractionStrategy" where
  "FalabellaStrategy P =
     \<lparr> name = ''Falabella'',
       canHandle = (\<lambda>d u. Inr (Falabella_canHandle d u)),
       extract' = (\<lambda>d u j. Inr (Falabella_extract P d u j)) \<rparr>"

definition GenericStrategy :: "platform \<Rightarrow> Product ExtractionStrategy" where
  "GenericStrategy P =
     \<lparr> name = ''Generic'',
       canHandle = (\<lambda>d u. Inr (Generic_canHandle d u)),
       extract' = (\<lambda>d u j. Inr (Generic_extract P d u j)) \<rparr>"

text \<open>
  \<^verbatim>\<open>UrbaniaStrategy\<close>. The body of its \<^verbatim>\<open>extract\<close> is one \<^verbatim>\<open>try\<close> whose \<^verbatim>\<open>catch\<close> returns
  \<^verbatim>\<open>[]\<close>, so the method returns a list for every input and does not throw. The list comes
  from parsing HTML with the cheerio library, which is outside the repository, so the function
  from the inputs to the list is a parameter here; what is proved below about a service holding
  this strategy is proved for every such function.
\<close>

definition UrbaniaStrategy ::
  "(json \<Rightarrow> string \<Rightarrow> string option \<Rightarrow> RealEstateListing list) \<Rightarrow>
   RealEstateListing ExtractionStrategy" where
  "UrbaniaStrategy urbania_extract =
     \<lparr> name = ''Urbania'',
       canHandle = (\<lambda>d u. Inr (Urbania_canHandle d u)),
       extract' = (\<lambda>d u j. Inr (urbania_extract d u j)) \<rparr>"

text \<open>
  The loop both \<^verbatim>\<open>findStrategy\<close> methods run: the first registered strategy whose
  \<^verbatim>\<open>canHandle\<close> returns true, nothing when the loop ends without one.
\<close>

fun first_handling ::
  "'e ExtractionStrategy list \<Rightarrow> json \<Rightarrow> string \<Rightarrow> thrown + 'e ExtractionStrategy option" where
  "first_handling [] d u = Inr None"
| "first_handling (s # ss) d u =
     (case canHandle s d u of
        Inl e \<Rightarrow> Inl e
      | Inr b \<Rightarrow> if b then Inr (Some s) else first_handling ss d u)"

text \<open>\<^verbatim>\<open>error instanceof Error ? error.message : 'Unknown error'\<close>\<close>

definition errorMsg :: "thrown \<Rightarrow> string" where
  "errorMsg e = (case e of ThrownError m \<Rightarrow> m | ThrownOther \<Rightarrow> ''Unknown error'')"

subsection \<open>ProductExtractorService\<close>

record ProductExtractorService =
  strategies :: "Product ExtractionStrategy list"
  fallbackStrategy :: "Product ExtractionStrategy"

text \<open>The constructor registers Falabella and keeps Generic as the fallback.\<close>

definition new_ProductExtractorService :: "platform \<Rightarrow> ProductExtractorService" where
  "new_ProductExtractorService P =
     \<lparr> strategies = [FalabellaStrategy P], fallbackStrategy = GenericStrategy P \<rparr>"

definition ProductExtractor_registerStrategy ::
  "ProductExtractorService \<Rightarrow> Product ExtractionStrategy \<Rightarrow> ProductExtractorService" where
  "ProductExtractor_registerStrategy svc s = svc \<lparr> strategies := strategies svc @ [s] \<rparr>"

definition ProductExtractor_findStrategy ::
  "ProductExtractorService \<Rightarrow> json \<Rightarrow> string \<Rightarrow> thrown + Product ExtractionStrategy" where
  "ProductExtractor_findStrategy svc d u =
     (case first_handling (strategies svc) d u of
        Inl e \<Rightarrow> Inl e
      | Inr (Some s) \<Rightarrow> Inr s
      | Inr None \<Rightarrow> Inr (fallbackStrategy svc))"

text \<open>The body of the \<^verbatim>\<open>try\<close> of \<^verbatim>\<open>extractProducts\<close>, then the method with its \<^verbatim>\<open>catch\<close>.\<close>

definition extractProducts_try ::
  "ProductExtractorService \<Rightarrow> nat \<Rightarrow> json \<Rightarrow> string \<Rightarrow> string option \<Rightarrow>
   thrown + ProductExtractionResult" where
  "extractProducts_try svc now d u j =
     (case ProductExtractor_findStrategy svc d u of
        Inl e \<Rightarrow> Inl e
      | Inr strategy \<Rightarrow>
          (case extract' strategy d u j of
             Inl e \<Rightarrow> Inl e
           | Inr ps \<Rightarrow>
               Inr \<lparr> products = ps,
                     ProductExtractionResult.metadata =
                       \<lparr> totalExtracted = length ps, source = u, extractedAt = now,
                         strategyUsed = Some (name strategy), errors = None \<rparr> \<rparr>))"

definition extractProducts ::
  "ProductExtractorService \<Rightarrow> nat \<Rightarrow> json \<Rightarrow> string \<Rightarrow> string option \<Rightarrow> ProductExtractionResult" where
  "extractProducts svc now d u j =
     (case extractProducts_try svc now d u j of
        Inr result \<Rightarrow> result
      | Inl e \<Rightarrow>
          \<lparr> products = [],
            ProductExtractionResult.metadata =
              \<lparr> totalExtracted = 0, source = u, extractedAt = now,
                strategyUsed = None,
                errors = Some [''Extraction error: '' @ errorMsg e] \<rparr> \<rparr>)"

subsection \<open>RealEstateExtractorService\<close>

record RealEstateExtractorService =
  strategies :: "RealEstateListing ExtractionStrategy list"

definition new_RealEstateExtractorService ::
  "(json \<Rightarrow> string \<Rightarrow> string option \<Rightarrow> RealEstateListing list) \<Rightarrow>
   RealEstateExtractorService" where
  "new_RealEstateExtractorService urbania_extract =
     \<lparr> RealEstateExtractorService.strategies = [UrbaniaStrategy urbania_extract] \<rparr>"

definition RealEstateExtractor_registerStrategy ::
  "RealEstateExtractorService \<Rightarrow> RealEstateListing ExtractionStrategy \<Rightarrow> RealEstateExtractorService" where
  "RealEstateExtractor_registerStrategy svc s =
     svc \<lparr> RealEstateExtractorService.strategies := RealEstateExtractorService.strategies svc @ [s] \<rparr>"

definition RealEstateExtractor_findStrategy ::
  "RealEstateExtractorService \<Rightarrow> json \<Rightarrow> string \<Rightarrow>
   thrown + RealEstateListing ExtractionStrategy option" where
  "RealEstateExtractor_findStrategy svc d u =
     first_handling (RealEstateExtractorService.strategies svc) d u"

definition extractListings_try ::
  "RealEstateExtractorService \<Rightarrow> nat \<Rightarrow> json \<Rightarrow> string \<Rightarrow> string option \<Rightarrow>
   thrown + RealEstateExtractionResult" where
  "extractListings_try svc now d u j =
     (case RealEstateExtractor_findStrategy svc d u of
        Inl e \<Rightarrow> Inl e
      | Inr None \<Rightarrow>
          Inr \<lparr> listings = [],
                RealEstateExtractionResult.metadata =
                  \<lparr> totalExtracted = 0, source = u, extractedAt = now,
                    strategyUsed = None,
                    errors = Some [''No strategy found for this real estate site''] \<rparr> \<rparr>
      | Inr (Some strategy) \<Rightarrow>
          (case extract' strategy d u j of
             Inl e \<Rightarrow> Inl e
           | Inr ls \<Rightarrow>
               Inr \<lparr> listings = ls,
                     RealEstateExtractionResult.metadata =
                       \<lparr> totalExtracted = length ls, source = u, extractedAt = now,
                         strategyUsed = Some (name strategy), errors = None \<rparr> \<rparr>))"

definition extractListings ::
  "RealEstateExtractorService \<Rightarrow> nat \<Rightarrow> json \<Rightarrow> string \<Rightarrow> string option \<Rightarrow> RealEstateExtractionResult" where
  "extractListings svc now d u j =
     (case extractListings_try svc now d u j of
        Inr result \<Rightarrow> result
      | Inl e \<Rightarrow>
          \<lparr> listings = [],
            RealEstateExtractionResult.metadata =
              \<lparr> totalExtracted = 0, source = u, extractedAt = now,
                strategyUsed = None,
                errors = Some [''Extraction error: '' @ errorMsg e] \<rparr> \<rparr>)"

text \<open>The document a call left under a key (nothing when the call threw).\<close>

definition stored_product :: "store_error + ProductStorageService \<Rightarrow> string \<Rightarrow> StoredProduct option" where
  "stored_product r key = (case r of Inr (Some coll) \<Rightarrow> coll key | _ \<Rightarrow> None)"

definition stored_listing :: "store_error + RealEstateStorageService \<Rightarrow> string \<Rightarrow> StoredListing option" where
  "stored_listing r key = (case r of Inr (Some coll) \<Rightarrow> coll key | _ \<Rightarrow> None)"

text \<open>The history entry an upsert at time \<open>t\<close> of product \<open>p\<close> records.\<close>

definition recorded :: "nat \<times> Product \<Rightarrow> PriceRecord" where
  "recorded tp = \<lparr> PriceRecord.price = Product.price (snd tp), recordedAt = fst tp \<rparr>"

text \<open>Each product of a sequence of upserts has a price that differs from the one before it.\<close>

definition each_price_differs :: "(nat \<times> Product) list \<Rightarrow> bool" where
  "each_price_differs tps =
     successively (\<lambda>a b. priceChanged (Product.price (snd a)) (Product.price (snd b))) tps"

text \<open>No document of the collection holds more than 100 history entries.\<close>

definition history_bounded :: "ProductStorageService \<Rightarrow> bool" where
  "history_bounded svc =
     (case svc of
        None \<Rightarrow> True
      | Some coll \<Rightarrow> (\<forall>d \<in> ran coll. length (StoredProduct.priceHistory d) \<le> 100))"

text \<open>The number of history entries of a stored listing (\<^verbatim>\<open>existing.priceHistory || []\<close>).\<close>

definition history_length :: "StoredListing \<Rightarrow> nat" where
  "history_length d = length (case StoredListing.priceHistory d of None \<Rightarrow> [] | Some h \<Rightarrow> h)"

section \<open>Concrete inputs\<close>

text \<open>
  A platform for the concrete inputs: it parses the URLs used below. These inputs contain no
  number that is printed or read back from a string, so the two number conversions are never
  applied; they are fixed arbitrarily.
\<close>

definition example_platform :: platform where
  "example_platform =
     \<lparr> hostname_of =
         [ ''https://www.falabella.com.pe/category/cat760706'' \<mapsto> ''www.falabella.com.pe'',
           ''https://shop.example.ac.uk/item/1'' \<mapsto> ''shop.example.ac.uk'',
           ''https://urbania.pe/inmueble/42'' \<mapsto> ''urbania.pe'',
           ''https://example.com/catalog'' \<mapsto> ''example.com'' ],
       number_to_string = (\<lambda>r. ''0''),
       string_to_number = (\<lambda>s. NaN) \<rparr>"

text \<open>The product \<^verbatim>\<open>{domain: "x", productId: "p1", price: {amount: a, currency: "USD"}}\<close>.\<close>

definition product_at :: "rat \<Rightarrow> Product" where
  "product_at a =
     \<lparr> productId = JStr ''p1'',
       name = JStr ''Widget'',
       Product.price = \<lparr> amount = Num a, currency = ''USD'', label = JUndefined,
                         isCrossed = JUndefined, price_type = JUndefined \<rparr>,
       Product.source = \<lparr> domain = ''x'', url = JStr ''https://example.com/catalog'',
                          jobId = None \<rparr> \<rparr>"

text \<open>A listing of urbania.pe with identifier 42 and price \<open>a\<close> soles.\<close>

definition listing_at :: "rat \<Rightarrow> RealEstateListing" where
  "listing_at a =
     \<lparr> listingId = ''42'',
       RealEstateListing.source = \<lparr> domain = ''urbania.pe'',
                                    url = JStr ''https://urbania.pe/inmueble/42'',
                                    jobId = None \<rparr>,
       title = JStr ''Departamento'',
       RealEstateListing.price = \<lparr> amount = Num a, currency = ''PEN'',
                                   period = Some ''one_time'' \<rparr> \<rparr>"

text \<open>\<open>n\<close> upserts at times \<open>0, 1, \<dots>\<close>, the one at time \<open>i\<close> with price \<open>i\<close>.\<close>

definition product_run :: "nat \<Rightarrow> (nat \<times> Product) list" where
  "product_run n = map (\<lambda>i. (i, product_at (of_nat i))) [0..<n]"

definition listing_run :: "nat \<Rightarrow> (nat \<times> RealEstateListing) list" where
  "listing_run n = map (\<lambda>i. (i, listing_at (of_nat i))) [0..<n]"

text \<open>The payload of the Falabella end-to-end scenario.\<close>

definition falabella_payload :: json where
  "falabella_payload =
     JObj [(''props'', JObj [(''pageProps'', JObj [(''results'',
       JArr [JObj [(''productId'', JStr ''123''),
                   (''displayName'', JStr ''Phone X''),
                   (''prices'', JArr [JObj [(''type'', JStr ''internetPrice''),
                                            (''price'', JArr [JStr ''999'']),
                                            (''symbol'', JStr ''S/ '')]])]])])])]"

text \<open>The payload \<^verbatim>\<open>[{id: "a1", name: "Widget", price: "$19.99"}]\<close>.\<close>

definition generic_payload :: json where
  "generic_payload =
     JArr [JObj [(''id'', JStr ''a1''), (''name'', JStr ''Widget''), (''price'', JStr ''$19.99'')]]"

text \<open>A record with an empty array as identifier: \<^verbatim>\<open>[{id: [], name: "Widget"}]\<close>.\<close>

definition empty_id_payload :: json where
  "empty_id_payload = JArr [JObj [(''id'', JArr []), (''name'', JStr ''Widget'')]]"


text \<open>A strategy that claims every payload and whose \<^verbatim>\<open>extract\<close> throws \<^verbatim>\<open>new Error("boom")\<close>.\<close>

definition failing_strategy :: "'e ExtractionStrategy" where
  "failing_strategy =
     \<lparr> name = ''Failing'',
       canHandle = (\<lambda>d u. Inr True),
       extract' = (\<lambda>d u j. Inl (ThrownError ''boom'')) \<rparr>"

text \<open>A strategy whose \<^verbatim>\<open>canHandle\<close> throws \<^verbatim>\<open>new Error("bad predicate")\<close>.\<close>

definition throwing_predicate_strategy :: "'e ExtractionStrategy" where
  "throwing_predicate_strategy =
     \<lparr> name = ''Broken'',
       canHandle = (\<lambda>d u. Inl (ThrownError ''bad predicate'')),
       extract' = (\<lambda>d u j. Inr []) \<rparr>"

text \<open>A strategy of a given name that claims every payload and finds nothing in it.\<close>

definition claiming_strategy :: "string \<Rightarrow> 'e ExtractionStrategy" where
  "claiming_strategy nm =
     \<lparr> name = nm,
       canHandle = (\<lambda>d u. Inr True),
       extract' = (\<lambda>d u j. Inr []) \<rparr>"

section \<open>The versioned upsert store\<close>

lemma length_slice_last: "length (slice_last n xs) = min n (length xs)"
  by (simp add: slice_last_def)

lemma slice_last_short: "length xs \<le> n \<Longrightarrow> slice_last n xs = xs"
  by (simp add: slice_last_def)

lemma slice_last_append_again:
  "slice_last n (slice_last n xs @ ys) = slice_last n (xs @ ys)"
  by (cases "length xs \<le> n") (simp_all add: slice_last_def add.commute)

lemma updates_sel:
  "version (ProductStorage_updates e k now p) = version e + 1"
  "StoredProduct.firstSeenAt (ProductStorage_updates e k now p) = StoredProduct.firstSeenAt e"
  "Product.price (ProductStorage_updates e k now p) = Product.price p"
  "StoredProduct.priceHistory (ProductStorage_updates e k now p) =
     (if priceChanged (Product.price e) (Product.price p)
      then slice_last 100 (StoredProduct.priceHistory e @ [recorded (now, p)])
      else StoredProduct.priceHistory e)"
  by (simp_all add: ProductStorage_updates_def Let_def slice_last_def recorded_def)

lemma storedProduct_sel:
  "version (ProductStorage_storedProduct k now p) = 1"
  "StoredProduct.firstSeenAt (ProductStorage_storedProduct k now p) = now"
  "Product.price (ProductStorage_storedProduct k now p) = Product.price p"
  "StoredProduct.priceHistory (ProductStorage_storedProduct k now p) = [recorded (now, p)]"
  by (simp_all add: ProductStorage_storedProduct_def recorded_def)

lemma listing_updates_sel:
  "StoredListing.firstSeenAt (RealEstateStorage_updates e k now l) = StoredListing.firstSeenAt e"
  "RealEstateListing.price (RealEstateStorage_updates e k now l) = RealEstateListing.price l"
  "StoredListing.priceHistory (RealEstateStorage_updates e k now l) =
     (if \<not> strict_eq (amount (RealEstateListing.price l)) (amount (RealEstateListing.price e))
      then Some ((case StoredListing.priceHistory e of None \<Rightarrow> [] | Some h \<Rightarrow> h) @
                 [\<lparr> amount = amount (RealEstateListing.price e),
                    currency = currency (RealEstateListing.price e),
                    changedAt = now \<rparr>])
      else StoredListing.priceHistory e)"
  by (simp_all add: RealEstateStorage_updates_def)

lemma newListing_sel:
  "StoredListing.firstSeenAt (RealEstateStorage_newListing k now l) = now"
  "RealEstateListing.price (RealEstateStorage_newListing k now l) = RealEstateListing.price l"
  "StoredListing.priceHistory (RealEstateStorage_newListing k now l) = Some []"
  by (simp_all add: RealEstateStorage_newListing_def)

lemma upsertProduct_insert:
  "Product_uniqueKey P p = Some k \<Longrightarrow> coll k = None \<Longrightarrow>
   upsertProduct P (Some coll) now p = Inr (Some (coll(k \<mapsto> ProductStorage_storedProduct k now p)))"
  by (simp add: upsertProduct_def)

lemma upsertProduct_update:
  "Product_uniqueKey P p = Some k \<Longrightarrow> coll k = Some e \<Longrightarrow>
   upsertProduct P (Some coll) now p = Inr (Some (coll(k \<mapsto> ProductStorage_updates e k now p)))"
  by (simp add: upsertProduct_def)

lemma upsertProduct_success:
  assumes "upsertProduct P svc now p = Inr svc'"
  obtains coll k where "svc = Some coll" "Product_uniqueKey P p = Some k"
  using assms by (auto simp: upsertProduct_def split: option.splits)

lemma upsertListing_insert:
  "coll (Listing_uniqueKey l) = None \<Longrightarrow>
   upsertListing (Some coll) now l =
     Inr (Some (coll(Listing_uniqueKey l \<mapsto> RealEstateStorage_newListing (Listing_uniqueKey l) now l)))"
  by (simp add: upsertListing_def Let_def)

lemma upsertListing_update:
  "coll (Listing_uniqueKey l) = Some e \<Longrightarrow>
   upsertListing (Some coll) now l =
     Inr (Some (coll(Listing_uniqueKey l \<mapsto> RealEstateStorage_updates e (Listing_uniqueKey l) now l)))"
  by (simp add: upsertListing_def Let_def)

lemma upsertListing_success:
  assumes "upsertListing svc now l = Inr svc'"
  obtains coll where "svc = Some coll"
  using assms by (auto simp: upsertListing_def split: option.splits)

text \<open>
  Claim C1, as the code has it. A successful \<^verbatim>\<open>upsertProduct\<close> writes one document under the
  product's key: with version 1 and \<^verbatim>\<open>firstSeenAt = now\<close> when the key was absent, with the
  previous version plus 1 and the previous \<^verbatim>\<open>firstSeenAt\<close> when it was present. A successful
  \<^verbatim>\<open>upsertListing\<close> sets \<^verbatim>\<open>firstSeenAt = now\<close> on the first upsert of a key and keeps it on
  every later one; a stored listing has no version field.
\<close>

theorem upsert_version_firstSeenAt:
  "(upsertProduct P svc now p = Inr svc' \<longrightarrow>
      (\<exists>coll k d. svc = Some coll \<and> Product_uniqueKey P p = Some k \<and> svc' = Some (coll(k \<mapsto> d)) \<and>
         (coll k = None \<longrightarrow> version d = 1 \<and> StoredProduct.firstSeenAt d = now) \<and>
         (\<forall>e. coll k = Some e \<longrightarrow> version d = version e + 1 \<and>
                StoredProduct.firstSeenAt d = StoredProduct.firstSeenAt e)))
   \<and> (upsertListing lsvc now l = Inr lsvc' \<longrightarrow>
      (\<exists>coll d. lsvc = Some coll \<and> lsvc' = Some (coll(Listing_uniqueKey l \<mapsto> d)) \<and>
         (coll (Listing_uniqueKey l) = None \<longrightarrow> StoredListing.firstSeenAt d = now) \<and>
         (\<forall>e. coll (Listing_uniqueKey l) = Some e \<longrightarrow>
                StoredListing.firstSeenAt d = StoredListing.firstSeenAt e)))"
proof (intro conjI impI)
  assume a: "upsertProduct P svc now p = Inr svc'"
  then obtain coll k where *: "svc = Some coll" "Product_uniqueKey P p = Some k"
    by (rule upsertProduct_success)
  show "\<exists>coll k d. svc = Some coll \<and> Product_uniqueKey P p = Some k \<and> svc' = Some (coll(k \<mapsto> d)) \<and>
         (coll k = None \<longrightarrow> version d = 1 \<and> StoredProduct.firstSeenAt d = now) \<and>
         (\<forall>e. coll k = Some e \<longrightarrow> version d = version e + 1 \<and>
                StoredProduct.firstSeenAt d = StoredProduct.firstSeenAt e)"
  proof (cases "coll k")
    case None
    with a * show ?thesis
      by (auto simp: upsertProduct_insert storedProduct_sel)
  next
    case (Some e)
    with a * show ?thesis
      by (auto simp: upsertProduct_update updates_sel)
  qed
next
  assume a: "upsertListing lsvc now l = Inr lsvc'"
  then obtain coll where *: "lsvc = Some coll"
    by (rule upsertListing_success)
  show "\<exists>coll d. lsvc = Some coll \<and> lsvc' = Some (coll(Listing_uniqueKey l \<mapsto> d)) \<and>
         (coll (Listing_uniqueKey l) = None \<longrightarrow> StoredListing.firstSeenAt d = now) \<and>
         (\<forall>e. coll (Listing_uniqueKey l) = Some e \<longrightarrow>
                StoredListing.firstSeenAt d = StoredListing.firstSeenAt e)"
  proof (cases "coll (Listing_uniqueKey l)")
    case None
    with a * show ?thesis
      by (auto simp: upsertListing_insert newListing_sel)
  next
    case (Some e)
    with a * show ?thesis
      by (auto simp: upsertListing_update listing_updates_sel)
  qed
qed

lemma product_at_key: "Product_uniqueKey P (product_at a) = Some ''x:p1''"
  by (simp add: Product_uniqueKey_def ProductStorage_generateUniqueKey_def product_at_def)

lemma listing_at_key: "Listing_uniqueKey (listing_at a) = ''urbania.pe:42''"
  by (simp add: Listing_uniqueKey_def RealEstateStorage_generateUniqueKey_def listing_at_def)

theorem upsert_version_firstSeenAt_witness:
  "upsertProduct example_platform (Some Map.empty) 5 (product_at 10) =
     Inr (Some [''x:p1'' \<mapsto> ProductStorage_storedProduct ''x:p1'' 5 (product_at 10)])
   \<and> version (ProductStorage_storedProduct ''x:p1'' 5 (product_at 10)) = 1
   \<and> upsertProduct example_platform
        (Some [''x:p1'' \<mapsto> ProductStorage_storedProduct ''x:p1'' 5 (product_at 10)]) 7 (product_at 12) =
     Inr (Some [''x:p1'' \<mapsto> ProductStorage_updates
                  (ProductStorage_storedProduct ''x:p1'' 5 (product_at 10)) ''x:p1'' 7 (product_at 12)])
   \<and> version (ProductStorage_updates
        (ProductStorage_storedProduct ''x:p1'' 5 (product_at 10)) ''x:p1'' 7 (product_at 12)) = 2
   \<and> StoredProduct.firstSeenAt (ProductStorage_updates
        (ProductStorage_storedProduct ''x:p1'' 5 (product_at 10)) ''x:p1'' 7 (product_at 12)) = 5
   \<and> upsertListing (Some Map.empty) 5 (listing_at 100) =
     Inr (Some [''urbania.pe:42'' \<mapsto> RealEstateStorage_newListing ''urbania.pe:42'' 5 (listing_at 100)])
   \<and> upsertListing
        (Some [''urbania.pe:42'' \<mapsto> RealEstateStorage_newListing ''urbania.pe:42'' 5 (listing_at 100)])
        7 (listing_at 120) =
     Inr (Some [''urbania.pe:42'' \<mapsto> RealEstateStorage_updates
                  (RealEstateStorage_newListing ''urbania.pe:42'' 5 (listing_at 100))
                  ''urbania.pe:42'' 7 (listing_at 120)])
   \<and> StoredListing.firstSeenAt (RealEstateStorage_updates
        (RealEstateStorage_newListing ''urbania.pe:42'' 5 (listing_at 100))
        ''urbania.pe:42'' 7 (listing_at 120)) = 5"
proof -
  let ?d0 = "ProductStorage_storedProduct ''x:p1'' 5 (product_at 10)"
  let ?d1 = "ProductStorage_updates ?d0 ''x:p1'' 7 (product_at 12)"
  let ?l0 = "RealEstateStorage_newListing ''urbania.pe:42'' 5 (listing_at 100)"
  let ?l1 = "RealEstateStorage_updates ?l0 ''urbania.pe:42'' 7 (listing_at 120)"
  have first: "upsertProduct example_platform (Some Map.empty) 5 (product_at 10) =
      Inr (Some [''x:p1'' \<mapsto> ?d0])"
    by (simp add: upsertProduct_insert product_at_key)
  have second: "upsertProduct example_platform (Some [''x:p1'' \<mapsto> ?d0]) 7 (product_at 12) =
      Inr (Some ([''x:p1'' \<mapsto> ?d0](''x:p1'' \<mapsto> ?d1)))"
    by (simp add: upsertProduct_update product_at_key)
  have lfirst: "upsertListing (Some Map.empty) 5 (listing_at 100) =
      Inr (Some [''urbania.pe:42'' \<mapsto> ?l0])"
    using upsertListing_insert [of Map.empty "listing_at 100" 5] by (simp add: listing_at_key)
  have lsecond: "upsertListing (Some [''urbania.pe:42'' \<mapsto> ?l0]) 7 (listing_at 120) =
      Inr (Some ([''urbania.pe:42'' \<mapsto> ?l0](''urbania.pe:42'' \<mapsto> ?l1)))"
    using upsertListing_update [of "[''urbania.pe:42'' \<mapsto> ?l0]" "listing_at 120" ?l0 7]
    by (simp add: listing_at_key)
  note inserted = upsert_version_firstSeenAt
      [where P = example_platform and svc = "Some Map.empty" and now = 5 and p = "product_at 10"
         and svc' = "Some [''x:p1'' \<mapsto> ?d0]" and lsvc = "Some Map.empty" and l = "listing_at 100"
         and lsvc' = "Some [''urbania.pe:42'' \<mapsto> ?l0]"]
  note updated = upsert_version_firstSeenAt
      [where P = example_platform and svc = "Some [''x:p1'' \<mapsto> ?d0]" and now = 7
         and p = "product_at 12" and svc' = "Some ([''x:p1'' \<mapsto> ?d0](''x:p1'' \<mapsto> ?d1))"
         and lsvc = "Some [''urbania.pe:42'' \<mapsto> ?l0]" and l = "listing_at 120"
         and lsvc' = "Some ([''urbania.pe:42'' \<mapsto> ?l0](''urbania.pe:42'' \<mapsto> ?l1))"]
  from inserted [THEN conjunct1, THEN mp, OF first]
  have v1: "version ?d0 = 1"
    by (auto simp: product_at_key dest: map_upd_eqD1)
  from updated [THEN conjunct1, THEN mp, OF second]
  have v2: "version ?d1 = version ?d0 + 1 \<and> StoredProduct.firstSeenAt ?d1 = StoredProduct.firstSeenAt ?d0"
    by (auto simp: product_at_key dest: map_upd_eqD1)
  from updated [THEN conjunct2, THEN mp, OF lsecond]
  have f2: "StoredListing.firstSeenAt ?l1 = StoredListing.firstSeenAt ?l0"
    by (auto simp: listing_at_key dest: map_upd_eqD1)
  show ?thesis
    using first second lfirst lsecond v1 v2 f2
    by (simp add: storedProduct_sel newListing_sel)
qed

text \<open>
  Claim C1 fails for listings: the collection after two upserts of a listing (at times 1 and 3)
  is the collection after three (at times 1, 2 and 3), so nothing in a stored listing counts
  the upserts.
\<close>

theorem listing_version_counterexample:
  "upsertListing_calls (Some Map.empty) [(1, listing_at 100), (3, listing_at 100)] =
   upsertListing_calls (Some Map.empty) [(1, listing_at 100), (2, listing_at 100), (3, listing_at 100)]"
  by (simp add: upsertListing_def listing_at_key RealEstateStorage_updates_def
        RealEstateStorage_newListing_def strict_eq_def Let_def listing_at_def)

text \<open>
  Claim C3, as the code has it. The first upsert of a product's key stores a history of exactly
  one entry, the product's price recorded at the time of the insert. The first upsert of a
  listing's key stores an empty history: a listing's history holds the prices it had before
  each change.
\<close>

theorem first_insert_history:
  "(Product_uniqueKey P p = Some k \<and> coll k = None \<longrightarrow>
      upsertProduct P (Some coll) now p =
        Inr (Some (coll(k \<mapsto> ProductStorage_storedProduct k now p))) \<and>
      StoredProduct.priceHistory (ProductStorage_storedProduct k now p) =
        [\<lparr> PriceRecord.price = Product.price p, recordedAt = now \<rparr>])
   \<and> (lcoll (Listing_uniqueKey l) = None \<longrightarrow>
      upsertListing (Some lcoll) now l =
        Inr (Some (lcoll(Listing_uniqueKey l \<mapsto> RealEstateStorage_newListing (Listing_uniqueKey l) now l))) \<and>
      StoredListing.priceHistory (RealEstateStorage_newListing (Listing_uniqueKey l) now l) = Some [])"
  by (simp add: upsertProduct_insert upsertListing_insert newListing_sel
        ProductStorage_storedProduct_def)

theorem first_insert_history_witness:
  "Product_uniqueKey example_platform (product_at 10) = Some ''x:p1''
   \<and> stored_product (upsertProduct example_platform (Some Map.empty) 7 (product_at 10)) ''x:p1'' =
       Some (ProductStorage_storedProduct ''x:p1'' 7 (product_at 10))
   \<and> StoredProduct.priceHistory (ProductStorage_storedProduct ''x:p1'' 7 (product_at 10)) =
       [\<lparr> PriceRecord.price = Product.price (product_at 10), recordedAt = 7 \<rparr>]
   \<and> map_option StoredListing.priceHistory
        (stored_listing (upsertListing (Some Map.empty) 7 (listing_at 10)) ''urbania.pe:42'') =
       Some (Some [])"
  using first_insert_history [of example_platform "product_at 10" "''x:p1''" Map.empty 7 Map.empty "listing_at 10"]
  by (simp add: product_at_key listing_at_key stored_product_def stored_listing_def)

text \<open>
  Claim C3 fails for listings: after the first upsert of a listing priced 10 soles its history
  is not the one entry holding that price.
\<close>

theorem listing_first_insert_counterexample:
  "map_option StoredListing.priceHistory
     (stored_listing (upsertListing (Some Map.empty) 7 (listing_at 10)) ''urbania.pe:42'') \<noteq>
   Some (Some [\<lparr> amount = Num 10, currency = ''PEN'', changedAt = 7 \<rparr>])"
  by (simp add: upsertListing_insert listing_at_key stored_listing_def newListing_sel)

text \<open>
  Claim C2, as the code has it. Upserting a product whose key is stored: when the incoming
  price differs from the stored one in amount or in currency, the new history is the old one
  with one entry appended, the incoming price at the current time, cut to its last 100
  entries; when amount and currency are the same, the history is carried forward unchanged.
  Upserting a listing whose key is stored: when the incoming amount differs from the stored
  one, one entry is appended that holds the price stored before (amount and currency) at the
  current time; when amount and currency are the same, the history is carried forward
  unchanged.
\<close>

theorem price_change_appends:
  "(Product_uniqueKey P p = Some k \<and> coll k = Some e \<longrightarrow>
      upsertProduct P (Some coll) now p =
        Inr (Some (coll(k \<mapsto> ProductStorage_updates e k now p))) \<and>
      ((\<not> strict_eq (amount (Product.price e)) (amount (Product.price p)) \<or>
        currency (Product.price e) \<noteq> currency (Product.price p)) \<longrightarrow>
         StoredProduct.priceHistory (ProductStorage_updates e k now p) =
           slice_last 100 (StoredProduct.priceHistory e @
                           [\<lparr> PriceRecord.price = Product.price p, recordedAt = now \<rparr>]) \<and>
         last (StoredProduct.priceHistory (ProductStorage_updates e k now p)) =
           \<lparr> PriceRecord.price = Product.price p, recordedAt = now \<rparr> \<and>
         (length (StoredProduct.priceHistory e) < 100 \<longrightarrow>
            StoredProduct.priceHistory (ProductStorage_updates e k now p) =
              StoredProduct.priceHistory e @
              [\<lparr> PriceRecord.price = Product.price p, recordedAt = now \<rparr>])) \<and>
      (strict_eq (amount (Product.price e)) (amount (Product.price p)) \<and>
       currency (Product.price e) = currency (Product.price p) \<longrightarrow>
         StoredProduct.priceHistory (ProductStorage_updates e k now p) =
           StoredProduct.priceHistory e))
   \<and> (lcoll (Listing_uniqueKey l) = Some le \<longrightarrow>
      upsertListing (Some lcoll) now l =
        Inr (Some (lcoll(Listing_uniqueKey l \<mapsto> RealEstateStorage_updates le (Listing_uniqueKey l) now l))) \<and>
      (\<not> strict_eq (amount (RealEstateListing.price l)) (amount (RealEstateListing.price le)) \<longrightarrow>
         StoredListing.priceHistory (RealEstateStorage_updates le (Listing_uniqueKey l) now l) =
           Some ((case StoredListing.priceHistory le of None \<Rightarrow> [] | Some h \<Rightarrow> h) @
                 [\<lparr> amount = amount (RealEstateListing.price le),
                    currency = currency (RealEstateListing.price le),
                    changedAt = now \<rparr>])) \<and>
      (strict_eq (amount (RealEstateListing.price l)) (amount (RealEstateListing.price le)) \<and>
       currency (RealEstateListing.price l) = currency (RealEstateListing.price le) \<longrightarrow>
         StoredListing.priceHistory (RealEstateStorage_updates le (Listing_uniqueKey l) now l) =
           StoredListing.priceHistory le))"
proof -
  have last_slice: "last (slice_last 100 (h @ [x])) = x" for h :: "PriceRecord list" and x
    by (simp add: slice_last_def)
  show ?thesis
    by (simp add: upsertProduct_update upsertListing_update updates_sel listing_updates_sel
          priceChanged_def recorded_def last_slice slice_last_short)
qed

lemma product_at_price:
  "amount (Product.price (product_at a)) = Num a"
  "currency (Product.price (product_at a)) = ''USD''"
  by (simp_all add: product_at_def)

lemma listing_at_price:
  "amount (RealEstateListing.price (listing_at a)) = Num a"
  "currency (RealEstateListing.price (listing_at a)) = ''PEN''"
  by (simp_all add: listing_at_def)

theorem price_change_appends_witness:
  "Product_uniqueKey example_platform (product_at 12) = Some ''x:p1''
   \<and> stored_product (upsertProduct_calls example_platform (Some Map.empty)
         [(5, product_at 10), (7, product_at 12)]) ''x:p1'' =
       Some (ProductStorage_updates (ProductStorage_storedProduct ''x:p1'' 5 (product_at 10))
               ''x:p1'' 7 (product_at 12))
   \<and> StoredProduct.priceHistory
         (ProductStorage_updates (ProductStorage_storedProduct ''x:p1'' 5 (product_at 10))
               ''x:p1'' 7 (product_at 12)) =
       [\<lparr> PriceRecord.price = Product.price (product_at 10), recordedAt = 5 \<rparr>,
        \<lparr> PriceRecord.price = Product.price (product_at 12), recordedAt = 7 \<rparr>]
   \<and> version (ProductStorage_updates (ProductStorage_storedProduct ''x:p1'' 5 (product_at 10))
               ''x:p1'' 7 (product_at 12)) = 2"
proof -
  let ?e = "ProductStorage_storedProduct ''x:p1'' 5 (product_at 10)"
  let ?c = "[''x:p1'' \<mapsto> ?e]"
  have key: "Product_uniqueKey example_platform (product_at 12) = Some ''x:p1''"
    by (rule product_at_key)
  have first: "upsertProduct example_platform (Some Map.empty) 5 (product_at 10) = Inr (Some ?c)"
    by (simp add: upsertProduct_insert product_at_key)
  have hyp: "Product_uniqueKey example_platform (product_at 12) = Some ''x:p1'' \<and> ?c ''x:p1'' = Some ?e"
    by (simp add: product_at_key)
  have differs: "\<not> strict_eq (amount (Product.price ?e)) (amount (Product.price (product_at 12))) \<or>
      currency (Product.price ?e) \<noteq> currency (Product.price (product_at 12))"
    by (simp add: storedProduct_sel product_at_price strict_eq_def)
  note product_part = price_change_appends
      [of example_platform "product_at 12" "''x:p1''" ?c ?e 7 Map.empty "listing_at 120"
          "RealEstateStorage_newListing ''urbania.pe:42'' 5 (listing_at 100)",
        THEN conjunct1, THEN mp, OF hyp]
  note second = product_part [THEN conjunct1]
  note history = product_part [THEN conjunct2, THEN conjunct1, THEN mp, OF differs, THEN conjunct1]
  have stored: "stored_product (upsertProduct_calls example_platform (Some Map.empty)
         [(5, product_at 10), (7, product_at 12)]) ''x:p1'' =
       Some (ProductStorage_updates ?e ''x:p1'' 7 (product_at 12))"
    by (simp add: first second stored_product_def)
  have hist: "StoredProduct.priceHistory (ProductStorage_updates ?e ''x:p1'' 7 (product_at 12)) =
       [\<lparr> PriceRecord.price = Product.price (product_at 10), recordedAt = 5 \<rparr>,
        \<lparr> PriceRecord.price = Product.price (product_at 12), recordedAt = 7 \<rparr>]"
    by (simp add: history storedProduct_sel recorded_def slice_last_short)
  show ?thesis
    using key stored hist by (simp add: updates_sel storedProduct_sel)
qed

text \<open>
  Claim C2 fails for listings: after a listing stored at 100 soles is upserted at 120 soles,
  the one history entry holds the old price, 100, not the incoming one.
\<close>

theorem listing_history_counterexample:
  "map_option StoredListing.priceHistory
     (stored_listing (upsertListing_calls (Some Map.empty)
        [(5, listing_at 100), (7, listing_at 120)]) ''urbania.pe:42'') =
   Some (Some [\<lparr> amount = Num 100, currency = ''PEN'', changedAt = 7 \<rparr>])"
  by (simp add: upsertListing_insert upsertListing_update listing_at_key stored_listing_def
        newListing_sel listing_updates_sel strict_eq_def listing_at_price)

lemma upsertProduct_calls_existing:
  "coll k = Some e \<Longrightarrow>
   \<forall>tp \<in> set tps. Product_uniqueKey P (snd tp) = Some k \<Longrightarrow>
   successively priceChanged (Product.price e # map (\<lambda>tp. Product.price (snd tp)) tps) \<Longrightarrow>
   \<exists>d. upsertProduct_calls P (Some coll) tps = Inr (Some (coll(k \<mapsto> d))) \<and>
       StoredProduct.priceHistory d =
         (if tps = [] then StoredProduct.priceHistory e
          else slice_last 100 (StoredProduct.priceHistory e @ map recorded tps))"
proof (induction tps arbitrary: coll e)
  case Nil
  then show ?case by (intro exI[of _ e]) (simp add: map_upd_triv)
next
  case (Cons tp rest)
  obtain t p where tp: "tp = (t, p)" by (cases tp)
  let ?d1 = "ProductStorage_updates e k t p"
  let ?c1 = "coll(k \<mapsto> ?d1)"
  from Cons.prems tp have key: "Product_uniqueKey P p = Some k" by simp
  from Cons.prems tp have changed: "priceChanged (Product.price e) (Product.price p)" by simp
  have step: "upsertProduct P (Some coll) t p = Inr (Some ?c1)"
    using key Cons.prems(1) by (rule upsertProduct_update)
  have h1: "StoredProduct.priceHistory ?d1 =
      slice_last 100 (StoredProduct.priceHistory e @ [recorded (t, p)])"
    using changed by (simp add: updates_sel)
  have "?c1 k = Some ?d1" by simp
  moreover from Cons.prems have "\<forall>tp \<in> set rest. Product_uniqueKey P (snd tp) = Some k" by simp
  moreover from Cons.prems tp
  have "successively priceChanged (Product.price ?d1 # map (\<lambda>tp. Product.price (snd tp)) rest)"
    by (simp add: updates_sel)
  ultimately obtain d where d:
    "upsertProduct_calls P (Some ?c1) rest = Inr (Some (?c1(k \<mapsto> d)))"
    "StoredProduct.priceHistory d =
       (if rest = [] then StoredProduct.priceHistory ?d1
        else slice_last 100 (StoredProduct.priceHistory ?d1 @ map recorded rest))"
    using Cons.IH by blast
  have "upsertProduct_calls P (Some coll) (tp # rest) = Inr (Some (coll(k \<mapsto> d)))"
    using step d(1) tp by simp
  moreover have "StoredProduct.priceHistory d =
      slice_last 100 (StoredProduct.priceHistory e @ map recorded (tp # rest))"
    using d(2) h1 tp by (simp add: slice_last_append_again)
  ultimately have "upsertProduct_calls P (Some coll) (tp # rest) = Inr (Some (coll(k \<mapsto> d))) \<and>
       StoredProduct.priceHistory d =
         (if tp # rest = [] then StoredProduct.priceHistory e
          else slice_last 100 (StoredProduct.priceHistory e @ map recorded (tp # rest)))"
    by simp
  then show ?case by (rule exI)
qed

lemma upsertProduct_calls_fresh:
  assumes "coll k = None" "tps \<noteq> []"
    and "\<forall>tp \<in> set tps. Product_uniqueKey P (snd tp) = Some k"
    and "each_price_differs tps"
  shows "\<exists>d. upsertProduct_calls P (Some coll) tps = Inr (Some (coll(k \<mapsto> d))) \<and>
       StoredProduct.priceHistory d = slice_last 100 (map recorded tps)"
proof -
  from assms(2) obtain t p rest where tps: "tps = (t, p) # rest" by (cases tps) auto
  let ?d0 = "ProductStorage_storedProduct k t p"
  let ?c0 = "coll(k \<mapsto> ?d0)"
  from assms(3) tps have key: "Product_uniqueKey P p = Some k" by simp
  have step: "upsertProduct P (Some coll) t p = Inr (Some ?c0)"
    using key assms(1) by (rule upsertProduct_insert)
  have succ: "successively priceChanged (Product.price ?d0 # map (\<lambda>tp. Product.price (snd tp)) rest)"
  proof -
    have "successively priceChanged (map (\<lambda>tp. Product.price (snd tp)) ((t, p) # rest))"
      using assms(4) tps unfolding each_price_differs_def successively_map by simp
    then show ?thesis by (simp add: storedProduct_sel)
  qed
  have "?c0 k = Some ?d0" by simp
  moreover from assms(3) tps have "\<forall>tp \<in> set rest. Product_uniqueKey P (snd tp) = Some k" by simp
  ultimately obtain d where d:
    "upsertProduct_calls P (Some ?c0) rest = Inr (Some (?c0(k \<mapsto> d)))"
    "StoredProduct.priceHistory d =
       (if rest = [] then StoredProduct.priceHistory ?d0
        else slice_last 100 (StoredProduct.priceHistory ?d0 @ map recorded rest))"
    using upsertProduct_calls_existing [OF _ _ succ] by blast
  have "upsertProduct_calls P (Some coll) tps = Inr (Some (coll(k \<mapsto> d)))"
    using step d(1) tps by simp
  moreover have "StoredProduct.priceHistory d = slice_last 100 (map recorded tps)"
    using d(2) tps by (simp add: storedProduct_sel slice_last_short)
  ultimately have "upsertProduct_calls P (Some coll) tps = Inr (Some (coll(k \<mapsto> d))) \<and>
       StoredProduct.priceHistory d = slice_last 100 (map recorded tps)"
    by simp
  then show ?thesis by (rule exI)
qed

lemma history_bounded_upsert:
  assumes "history_bounded svc" "upsertProduct P svc now p = Inr svc'"
  shows "history_bounded svc'"
proof -
  from assms(2) obtain coll k where *: "svc = Some coll" "Product_uniqueKey P p = Some k"
    by (rule upsertProduct_success)
  have b: "\<forall>d \<in> ran coll. length (StoredProduct.priceHistory d) \<le> 100"
    using assms(1) * by (simp add: history_bounded_def)
  show ?thesis
  proof (cases "coll k")
    case None
    with assms(2) * have "svc' = Some (coll(k \<mapsto> ProductStorage_storedProduct k now p))"
      by (simp add: upsertProduct_insert)
    with b None show ?thesis
      by (auto simp: history_bounded_def storedProduct_sel ran_def split: if_splits)
  next
    case (Some e)
    with assms(2) * have s: "svc' = Some (coll(k \<mapsto> ProductStorage_updates e k now p))"
      by (simp add: upsertProduct_update)
    from b Some have "length (StoredProduct.priceHistory e) \<le> 100"
      by (auto simp: ran_def)
    then have "length (StoredProduct.priceHistory (ProductStorage_updates e k now p)) \<le> 100"
      by (simp add: updates_sel length_slice_last)
    with b s show ?thesis
      by (auto simp: history_bounded_def ran_def split: if_splits)
  qed
qed

lemma upsertListing_calls_existing:
  "coll k = Some e \<Longrightarrow>
   \<forall>tp \<in> set tps. Listing_uniqueKey (snd tp) = k \<Longrightarrow>
   successively (\<lambda>a b. \<not> strict_eq b a)
     (amount (RealEstateListing.price e) # map (\<lambda>tp. amount (RealEstateListing.price (snd tp))) tps) \<Longrightarrow>
   \<exists>d. upsertListing_calls (Some coll) tps = Inr (Some (coll(k \<mapsto> d))) \<and>
       history_length d = history_length e + length tps"
proof (induction tps arbitrary: coll e)
  case Nil
  then show ?case by (intro exI[of _ e]) (simp add: map_upd_triv)
next
  case (Cons tp rest)
  obtain t l where tp: "tp = (t, l)" by (cases tp)
  let ?d1 = "RealEstateStorage_updates e k t l"
  let ?c1 = "coll(k \<mapsto> ?d1)"
  from Cons.prems tp have key: "Listing_uniqueKey l = k" by simp
  from Cons.prems tp have changed:
    "\<not> strict_eq (amount (RealEstateListing.price l)) (amount (RealEstateListing.price e))" by simp
  have step: "upsertListing (Some coll) t l = Inr (Some ?c1)"
    using key Cons.prems(1) upsertListing_update [of coll l e t] by simp
  have h1: "history_length ?d1 = history_length e + 1"
    using changed by (simp add: listing_updates_sel history_length_def)
  have "?c1 k = Some ?d1" by simp
  moreover from Cons.prems have "\<forall>tp \<in> set rest. Listing_uniqueKey (snd tp) = k" by simp
  moreover from Cons.prems tp
  have "successively (\<lambda>a b. \<not> strict_eq b a)
     (amount (RealEstateListing.price ?d1) # map (\<lambda>tp. amount (RealEstateListing.price (snd tp))) rest)"
    by (simp add: listing_updates_sel)
  ultimately obtain d where d:
    "upsertListing_calls (Some ?c1) rest = Inr (Some (?c1(k \<mapsto> d)))"
    "history_length d = history_length ?d1 + length rest"
    using Cons.IH by blast
  have "upsertListing_calls (Some coll) (tp # rest) = Inr (Some (coll(k \<mapsto> d)))"
    using step d(1) tp by simp
  moreover have "history_length d = history_length e + length (tp # rest)"
    using d(2) h1 by simp
  ultimately have "upsertListing_calls (Some coll) (tp # rest) = Inr (Some (coll(k \<mapsto> d))) \<and>
      history_length d = history_length e + length (tp # rest)"
    by simp
  then show ?case by (rule exI)
qed

lemma product_run_facts:
  "length (product_run n) = n"
  "\<forall>tp \<in> set (product_run n). Product_uniqueKey P (snd tp) = Some ''x:p1''"
  "each_price_differs (product_run n)"
  by (auto simp: product_run_def product_at_key each_price_differs_def successively_map
        successively_conv_nth priceChanged_def product_at_price strict_eq_def)

lemma listing_run_facts:
  "length (listing_run n) = n"
  "\<forall>tp \<in> set (listing_run n). Listing_uniqueKey (snd tp) = ''urbania.pe:42''"
  "successively (\<lambda>a b. \<not> strict_eq b a)
     (map (\<lambda>tp. amount (RealEstateListing.price (snd tp))) (listing_run n))"
  by (auto simp: listing_run_def listing_at_key successively_map
        successively_conv_nth listing_at_price strict_eq_def)

lemma listing_run_Suc:
  "listing_run (Suc n) = (0, listing_at 0) # tl (listing_run (Suc n))"
  by (simp add: listing_run_def upt_conv_Cons del: upt_Suc)

text \<open>
  Claim C4 fails for listings: after 150 successive upserts of one listing, each at a different
  amount, its history holds 149 entries.
\<close>

theorem listing_history_unbounded_counterexample:
  "map_option history_length
     (stored_listing (upsertListing_calls (Some Map.empty) (listing_run 150)) ''urbania.pe:42'') =
   Some 149"
proof -
  let ?rest = "tl (listing_run 150)"
  let ?d0 = "RealEstateStorage_newListing ''urbania.pe:42'' 0 (listing_at 0)"
  have run: "listing_run 150 = (0, listing_at 0) # ?rest"
    using listing_run_Suc [of 149] by simp
  have len: "length ?rest = 149"
    by (simp add: listing_run_facts)
  have first: "upsertListing (Some Map.empty) 0 (listing_at 0) = Inr (Some [''urbania.pe:42'' \<mapsto> ?d0])"
    using upsertListing_insert [of Map.empty "listing_at 0" 0] by (simp add: listing_at_key)
  have keys: "\<forall>tp \<in> set ?rest. Listing_uniqueKey (snd tp) = ''urbania.pe:42''"
    using listing_run_facts(2) [of 150] run by (metis list.set_intros(2))
  have succ: "successively (\<lambda>a b. \<not> strict_eq b a)
     (amount (RealEstateListing.price ?d0) # map (\<lambda>tp. amount (RealEstateListing.price (snd tp))) ?rest)"
    using listing_run_facts(3) [of 150] run by (metis (no_types, lifting) list.simps(9) newListing_sel(2) snd_conv)
  obtain d where d:
    "upsertListing_calls (Some [''urbania.pe:42'' \<mapsto> ?d0]) ?rest =
       Inr (Some ([''urbania.pe:42'' \<mapsto> ?d0](''urbania.pe:42'' \<mapsto> d)))"
    "history_length d = history_length ?d0 + length ?rest"
    using upsertListing_calls_existing [OF _ keys succ, of "[''urbania.pe:42'' \<mapsto> ?d0]"] by auto
  have "upsertListing_calls (Some Map.empty) ((0, listing_at 0) # ?rest) =
      Inr (Some ([''urbania.pe:42'' \<mapsto> ?d0](''urbania.pe:42'' \<mapsto> d)))"
    using first d(1) by simp
  then have "stored_listing (upsertListing_calls (Some Map.empty) (listing_run 150)) ''urbania.pe:42'' = Some d"
    using run by (simp add: stored_listing_def)
  moreover have "history_length d = 149"
    using d(2) len by (simp add: history_length_def newListing_sel)
  ultimately show ?thesis by simp
qed

text \<open>
  Claim C4, as the code has it. For products: the empty collection holds no history longer than
  100 entries and a successful \<^verbatim>\<open>upsertProduct\<close> keeps it so; after any run of successive
  upserts of one key that was absent, each with a price different from the one before, the
  history is the last 100 recorded prices in order (the oldest are the ones dropped), so after
  150 such upserts it has exactly 100 entries, those of the last 100 upserts. For listings the
  history is not cut: an upsert at a different amount makes it one entry longer.
\<close>

theorem history_bound_and_trimming:
  "history_bounded (Some Map.empty)
   \<and> (history_bounded svc \<and> upsertProduct P svc now p = Inr svc' \<longrightarrow> history_bounded svc')
   \<and> (coll k = None \<and> tps \<noteq> [] \<and> (\<forall>tp \<in> set tps. Product_uniqueKey P (snd tp) = Some k) \<and>
       each_price_differs tps \<longrightarrow>
        (\<exists>d. upsertProduct_calls P (Some coll) tps = Inr (Some (coll(k \<mapsto> d))) \<and>
             StoredProduct.priceHistory d = slice_last 100 (map recorded tps) \<and>
             (length tps = 150 \<longrightarrow>
                length (StoredProduct.priceHistory d) = 100 \<and>
                StoredProduct.priceHistory d = map recorded (drop 50 tps))))
   \<and> (lcoll (Listing_uniqueKey l) = Some le \<and>
       \<not> strict_eq (amount (RealEstateListing.price l)) (amount (RealEstateListing.price le)) \<longrightarrow>
        upsertListing (Some lcoll) now l =
          Inr (Some (lcoll(Listing_uniqueKey l \<mapsto> RealEstateStorage_updates le (Listing_uniqueKey l) now l))) \<and>
        history_length (RealEstateStorage_updates le (Listing_uniqueKey l) now l) =
          history_length le + 1)"
proof (intro conjI impI)
  show "history_bounded (Some Map.empty)"
    by (simp add: history_bounded_def)
next
  assume "history_bounded svc \<and> upsertProduct P svc now p = Inr svc'"
  then show "history_bounded svc'"
    using history_bounded_upsert by blast
next
  assume a: "coll k = None \<and> tps \<noteq> [] \<and> (\<forall>tp \<in> set tps. Product_uniqueKey P (snd tp) = Some k) \<and>
       each_price_differs tps"
  then obtain d where d: "upsertProduct_calls P (Some coll) tps = Inr (Some (coll(k \<mapsto> d)))"
      "StoredProduct.priceHistory d = slice_last 100 (map recorded tps)"
    using upsertProduct_calls_fresh [of coll k tps P] by blast
  have "length tps = 150 \<longrightarrow>
          length (StoredProduct.priceHistory d) = 100 \<and>
          StoredProduct.priceHistory d = map recorded (drop 50 tps)"
    using d(2) by (simp add: slice_last_def drop_map)
  with d show "\<exists>d. upsertProduct_calls P (Some coll) tps = Inr (Some (coll(k \<mapsto> d))) \<and>
             StoredProduct.priceHistory d = slice_last 100 (map recorded tps) \<and>
             (length tps = 150 \<longrightarrow>
                length (StoredProduct.priceHistory d) = 100 \<and>
                StoredProduct.priceHistory d = map recorded (drop 50 tps))"
    by blast
next
  assume a: "lcoll (Listing_uniqueKey l) = Some le \<and>
       \<not> strict_eq (amount (RealEstateListing.price l)) (amount (RealEstateListing.price le))"
  then show "upsertListing (Some lcoll) now l =
          Inr (Some (lcoll(Listing_uniqueKey l \<mapsto> RealEstateStorage_updates le (Listing_uniqueKey l) now l)))"
    by (simp add: upsertListing_update)
  from a show "history_length (RealEstateStorage_updates le (Listing_uniqueKey l) now l) =
          history_length le + 1"
    by (simp add: history_length_def listing_updates_sel)
qed

theorem history_bound_and_trimming_witness:
  "history_bounded (Some Map.empty)
   \<and> product_run 150 \<noteq> []
   \<and> each_price_differs (product_run 150)
   \<and> length (product_run 150) = 150
   \<and> (\<exists>d. upsertProduct_calls example_platform (Some Map.empty) (product_run 150) =
            Inr (Some [''x:p1'' \<mapsto> d]) \<and>
          length (StoredProduct.priceHistory d) = 100 \<and>
          StoredProduct.priceHistory d = map recorded (drop 50 (product_run 150)))
   \<and> history_bounded (Some [''x:p1'' \<mapsto> ProductStorage_storedProduct ''x:p1'' 5 (product_at 10)])
   \<and> history_length (RealEstateStorage_updates
         (RealEstateStorage_newListing ''urbania.pe:42'' 5 (listing_at 100))
         ''urbania.pe:42'' 7 (listing_at 120)) = 1"
proof -
  have ne: "product_run 150 \<noteq> []"
    using product_run_facts(1) [of 150] by auto
  have hyp: "Map.empty ''x:p1'' = None \<and> product_run 150 \<noteq> [] \<and>
      (\<forall>tp \<in> set (product_run 150). Product_uniqueKey example_platform (snd tp) = Some ''x:p1'') \<and>
      each_price_differs (product_run 150)"
    using ne by (simp add: product_run_facts)
  note T = history_bound_and_trimming [where svc = "Some Map.empty" and P = example_platform and coll = Map.empty
      and k = "''x:p1''" and tps = "product_run 150" and now = 5 and p = "product_at 10"
      and svc' = "Some [''x:p1'' \<mapsto> ProductStorage_storedProduct ''x:p1'' 5 (product_at 10)]"]
  note L = history_bound_and_trimming [where lcoll = "[''urbania.pe:42'' \<mapsto> RealEstateStorage_newListing ''urbania.pe:42'' 5 (listing_at 100)]"
      and l = "listing_at 120" and now = 7
      and le = "RealEstateStorage_newListing ''urbania.pe:42'' 5 (listing_at 100)"]
  have hyp2: "history_bounded (Some Map.empty) \<and>
      upsertProduct example_platform (Some Map.empty) 5 (product_at 10) =
        Inr (Some [''x:p1'' \<mapsto> ProductStorage_storedProduct ''x:p1'' 5 (product_at 10)])"
    by (simp add: history_bounded_def upsertProduct_insert product_at_key)
  note bounded = T [THEN conjunct2, THEN conjunct1, THEN mp, OF hyp2]
  have hyp3: "[''urbania.pe:42'' \<mapsto> RealEstateStorage_newListing ''urbania.pe:42'' 5 (listing_at 100)]
        (Listing_uniqueKey (listing_at 120)) =
      Some (RealEstateStorage_newListing ''urbania.pe:42'' 5 (listing_at 100)) \<and>
      \<not> strict_eq (amount (RealEstateListing.price (listing_at 120)))
         (amount (RealEstateListing.price (RealEstateStorage_newListing ''urbania.pe:42'' 5 (listing_at 100))))"
    by (simp add: listing_at_key newListing_sel listing_at_price strict_eq_def)
  note grows = L [THEN conjunct2, THEN conjunct2, THEN conjunct2, THEN mp, OF hyp3, THEN conjunct2]
  note run = T [THEN conjunct2, THEN conjunct2, THEN conjunct1, THEN mp, OF hyp]
  from run obtain d where d:
    "upsertProduct_calls example_platform (Some Map.empty) (product_run 150) = Inr (Some [''x:p1'' \<mapsto> d])"
    "length (product_run 150) = 150 \<longrightarrow>
       length (StoredProduct.priceHistory d) = 100 \<and>
       StoredProduct.priceHistory d = map recorded (drop 50 (product_run 150))"
    by blast
  from d(2) have "length (StoredProduct.priceHistory d) = 100 \<and>
       StoredProduct.priceHistory d = map recorded (drop 50 (product_run 150))"
    by (simp add: product_run_facts)
  with d(1) have "\<exists>d. upsertProduct_calls example_platform (Some Map.empty) (product_run 150) =
            Inr (Some [''x:p1'' \<mapsto> d]) \<and>
          length (StoredProduct.priceHistory d) = 100 \<and>
          StoredProduct.priceHistory d = map recorded (drop 50 (product_run 150))"
    by blast
  moreover have "history_length (RealEstateStorage_updates
         (RealEstateStorage_newListing ''urbania.pe:42'' 5 (listing_at 100))
         ''urbania.pe:42'' 7 (listing_at 120)) = 1"
    using grows by (simp add: listing_at_key history_length_def newListing_sel)
  ultimately show ?thesis
    using ne bounded T [THEN conjunct1] by (simp add: product_run_facts)
qed

section \<open>Domain canonicalizers and provenance\<close>

lemma extractDomain_agree:
  assumes "hostname_of P u = None \<or>
     (\<exists>h. hostname_of P u = Some h \<and>
        (length (split_on CHR ''.'' (strip_www h)) < 3 \<or>
         split_on CHR ''.'' (strip_www h) ! (length (split_on CHR ''.'' (strip_www h)) - 2) \<noteq> ''ac''))"
  shows "StorageService_extractDomain P u = BaseExtractionStrategy_extractDomain P u"
  using assms
  by (auto simp: StorageService_extractDomain_def BaseExtractionStrategy_extractDomain_def Let_def
        split: option.splits)

lemma those_map_all:
  "those (map f xs) = Some ys \<Longrightarrow> \<forall>y \<in> set ys. \<exists>x \<in> set xs. f x = Some y"
proof (induction xs arbitrary: ys)
  case Nil
  then show ?case by simp
next
  case (Cons x xs)
  from Cons.prems obtain y zs where y: "f x = Some y" "those (map f xs) = Some zs" "ys = y # zs"
    by (auto split: option.splits)
  with Cons.IH [of zs] show ?case by auto
qed

lemma map_throwing_all:
  "map_throwing f xs = Some ys \<Longrightarrow> \<forall>y \<in> set ys. \<exists>x \<in> set xs. f x = Some y"
  unfolding map_throwing_def by (rule those_map_all)

lemma Falabella_normalizeProduct_domain:
  "Falabella_normalizeProduct P item d u j = Some p \<Longrightarrow> domain (Product.source p) = d"
  by (auto simp: Falabella_normalizeProduct_def Let_def split: if_splits Option.bind_splits)

lemma Generic_normalizeProduct_domain:
  "Generic_normalizeProduct P item d u j = Some p \<Longrightarrow> domain (Product.source p) = d"
  by (auto simp: Generic_normalizeProduct_def createBaseProduct_def Let_def
        split: if_splits Option.bind_splits)

lemma Falabella_extract_domain:
  assumes "p \<in> set (Falabella_extract P d u j)"
  shows "domain (Product.source p) = BaseExtractionStrategy_extractDomain P u"
proof -
  from assms obtain ps where ps: "Falabella_extract_try P d u j = Some ps" "p \<in> set ps"
    by (cases "Falabella_extract_try P d u j") (auto simp: Falabella_extract_def)
  then obtain items kept where
    "map_throwing (\<lambda>item. Falabella_normalizeProduct P item (BaseExtractionStrategy_extractDomain P u) u j) kept = Some ps"
    by (auto simp: Falabella_extract_try_def Let_def split: json.splits Option.bind_splits)
  with ps(2) obtain item where
    "Falabella_normalizeProduct P item (BaseExtractionStrategy_extractDomain P u) u j = Some p"
    using map_throwing_all by fastforce
  then show ?thesis by (rule Falabella_normalizeProduct_domain)
qed

lemma Generic_extract_domain:
  assumes "p \<in> set (Generic_extract P d u j)"
  shows "domain (Product.source p) = BaseExtractionStrategy_extractDomain P u"
proof -
  from assms obtain ps where ps: "Generic_extract_try P d u j = Some ps" "p \<in> set ps"
    by (cases "Generic_extract_try P d u j") (auto simp: Generic_extract_def)
  then obtain items where
    "map_throwing (\<lambda>item. Generic_normalizeProduct P item (BaseExtractionStrategy_extractDomain P u) u j) items = Some ps"
    by (auto simp: Generic_extract_try_def Let_def split: json.splits)
  with ps(2) obtain item where
    "Generic_normalizeProduct P item (BaseExtractionStrategy_extractDomain P u) u j = Some p"
    using map_throwing_all by fastforce
  then show ?thesis by (rule Generic_normalizeProduct_domain)
qed

lemmas js_defs = js_get_def optprop_def js_or_def js_and_def opt_index0_def opt_length_def
  js_gt_0_def has_length_def

lemma parsePrice_999: "parsePrice (JStr ''999'') = Some (Num 999)"
  by (simp add: parsePrice_def parseFloat_cleaned_def is_digit_def decimal_value_def Let_def)

lemma extractCurrency_soles: "extractCurrency ''S/ '' = ''PEN''"
  by (simp add: extractCurrency_def currencyMap_def)

lemma Falabella_extract_payload:
  "Falabella_extract P falabella_payload u j =
     [\<lparr> productId = JStr ''123'', name = JStr ''Phone X'',
        Product.price = \<lparr> amount = Num 999, currency = ''PEN'', label = JUndefined,
                          isCrossed = JUndefined, price_type = JStr ''internetPrice'' \<rparr>,
        Product.source = \<lparr> domain = BaseExtractionStrategy_extractDomain P u,
                           url = JStr u, jobId = source_jobId j \<rparr> \<rparr>]"
  by (simp add: Falabella_extract_def Falabella_extract_try_def falabella_payload_def js_defs
        Falabella_keeps_def map_throwing_def Falabella_normalizeProduct_def
        Falabella_extractPrice_def Falabella_internetPrice_def parsePrice_999
        extractCurrency_of_def extractCurrency_soles Falabella_nextDay_def
        Falabella_specifications_def Let_def)

lemma parsePrice_1999: "parsePrice (JStr ''$19.99'') = Some (Num (1999 / 100))"
  by (simp add: parsePrice_def parseFloat_cleaned_def is_digit_def decimal_value_def Let_def)

lemma Generic_extract_payload:
  "Generic_extract P generic_payload u j =
     [\<lparr> productId = JStr ''a1'', name = JStr ''Widget'',
        Product.price = \<lparr> amount = Num (1999 / 100), currency = ''USD'', label = JUndefined,
                          isCrossed = JUndefined, price_type = JUndefined \<rparr>,
        Product.source = \<lparr> domain = BaseExtractionStrategy_extractDomain P u,
                           url = JStr u, jobId = source_jobId j \<rparr> \<rparr>]"
  by (simp add: Generic_extract_def Generic_extract_try_def generic_payload_def js_defs
        looksLikeProduct_def map_throwing_def Generic_normalizeProduct_def
        Generic_extractPrice_def parsePrice_1999 createBaseProduct_def String_if_truthy_def
        Generic_extractImageUrls_def Let_def)

lemma example_hostnames:
  "hostname_of example_platform ''https://www.falabella.com.pe/category/cat760706'' = Some ''www.falabella.com.pe''"
  "hostname_of example_platform ''https://shop.example.ac.uk/item/1'' = Some ''shop.example.ac.uk''"
  "hostname_of example_platform ''https://urbania.pe/inmueble/42'' = Some ''urbania.pe''"
  "hostname_of example_platform ''https://example.com/catalog'' = Some ''example.com''"
  by (simp_all add: example_platform_def)

lemma example_domains:
  "StorageService_extractDomain example_platform ''https://www.falabella.com.pe/category/cat760706'' = ''falabella''"
  "BaseExtractionStrategy_extractDomain example_platform ''https://www.falabella.com.pe/category/cat760706'' = ''falabella''"
  "StorageService_extractDomain example_platform ''https://urbania.pe/inmueble/42'' = ''urbania''"
  "BaseExtractionStrategy_extractDomain example_platform ''https://example.com/catalog'' = ''example''"
  "StorageService_extractDomain example_platform ''https://shop.example.ac.uk/item/1'' = ''example''"
  "BaseExtractionStrategy_extractDomain example_platform ''https://shop.example.ac.uk/item/1'' = ''ac''"
  by (simp_all add: StorageService_extractDomain_def BaseExtractionStrategy_extractDomain_def
        example_hostnames strip_www_def Let_def)

text \<open>
  Claim C5, as the code has it. The two canonicalizers return the same domain for every URL
  that does not parse, and for every URL whose hostname, once a leading \<^verbatim>\<open>www.\<close> is removed,
  has fewer than three labels or a second-to-last label other than \<^verbatim>\<open>ac\<close>. Every product
  the Falabella or the generic strategy extracts from a URL carries the strategy-side
  canonicalizer's domain for that URL. The Urbania strategy tags its listings with the fixed
  domain \<^verbatim>\<open>urbania.pe\<close>, whatever the URL.
\<close>

theorem provenance_domain:
  "((hostname_of P u = None \<or>
      (\<exists>h. hostname_of P u = Some h \<and>
         (length (split_on CHR ''.'' (strip_www h)) < 3 \<or>
          split_on CHR ''.'' (strip_www h) ! (length (split_on CHR ''.'' (strip_www h)) - 2) \<noteq> ''ac''))) \<longrightarrow>
     StorageService_extractDomain P u = BaseExtractionStrategy_extractDomain P u)
   \<and> (\<forall>p \<in> set (Falabella_extract P d u j).
         domain (Product.source p) = BaseExtractionStrategy_extractDomain P u)
   \<and> (\<forall>p \<in> set (Generic_extract P d u j).
         domain (Product.source p) = BaseExtractionStrategy_extractDomain P u)
   \<and> domain (Urbania_parseJsonListing_source item u j) = ''urbania.pe''"
  using extractDomain_agree [of P u] Falabella_extract_domain [of _ P d u j]
    Generic_extract_domain [of _ P d u j]
  by (auto simp: Urbania_parseJsonListing_source_def)

theorem provenance_domain_witness:
  "hostname_of example_platform ''https://www.falabella.com.pe/category/cat760706'' =
     Some ''www.falabella.com.pe''
   \<and> split_on CHR ''.'' (strip_www ''www.falabella.com.pe'') = [''falabella'', ''com'', ''pe'']
   \<and> StorageService_extractDomain example_platform ''https://www.falabella.com.pe/category/cat760706'' = ''falabella''
   \<and> BaseExtractionStrategy_extractDomain example_platform ''https://www.falabella.com.pe/category/cat760706'' = ''falabella''
   \<and> map (\<lambda>p. domain (Product.source p))
        (Falabella_extract example_platform falabella_payload
           ''https://www.falabella.com.pe/category/cat760706'' None) = [''falabella'']
   \<and> map (\<lambda>p. domain (Product.source p))
        (Generic_extract example_platform generic_payload
           ''https://www.falabella.com.pe/category/cat760706'' None) = [''falabella'']"
proof -
  let ?u = "''https://www.falabella.com.pe/category/cat760706''"
  have parts: "split_on CHR ''.'' (strip_www ''www.falabella.com.pe'') = [''falabella'', ''com'', ''pe'']"
    by (simp add: strip_www_def)
  have hyp: "hostname_of example_platform ?u = None \<or>
      (\<exists>h. hostname_of example_platform ?u = Some h \<and>
         (length (split_on CHR ''.'' (strip_www h)) < 3 \<or>
          split_on CHR ''.'' (strip_www h) ! (length (split_on CHR ''.'' (strip_www h)) - 2) \<noteq> ''ac''))"
    using parts by (simp add: example_hostnames)
  note T = provenance_domain [of example_platform ?u falabella_payload None]
  note G = provenance_domain [of example_platform ?u generic_payload None]
  from T [THEN conjunct1, THEN mp, OF hyp]
  have agree: "StorageService_extractDomain example_platform ?u =
      BaseExtractionStrategy_extractDomain example_platform ?u" .
  from T [THEN conjunct2, THEN conjunct1]
  have f: "map (\<lambda>p. domain (Product.source p)) (Falabella_extract example_platform falabella_payload ?u None) =
      [BaseExtractionStrategy_extractDomain example_platform ?u]"
    by (simp add: Falabella_extract_payload)
  from G [THEN conjunct2, THEN conjunct2, THEN conjunct1]
  have g: "map (\<lambda>p. domain (Product.source p)) (Generic_extract example_platform generic_payload ?u None) =
      [BaseExtractionStrategy_extractDomain example_platform ?u]"
    by (simp add: Generic_extract_payload)
  show ?thesis
    using parts agree f g by (simp add: example_hostnames example_domains)
qed

text \<open>
  Claim C5 fails for listings: the raw job record of \<^verbatim>\<open>https://urbania.pe/inmueble/42\<close> is
  tagged \<^verbatim>\<open>urbania\<close>, a listing extracted from it \<^verbatim>\<open>urbania.pe\<close>.
\<close>

theorem urbania_domain_counterexample:
  "StorageService_extractDomain example_platform ''https://urbania.pe/inmueble/42'' \<noteq>
   domain (Urbania_parseJsonListing_source
             (JObj [(''id'', JStr ''42''), (''title'', JStr ''Departamento'')])
             ''https://urbania.pe/inmueble/42'' None)"
  by (simp add: example_domains Urbania_parseJsonListing_source_def)

section \<open>End-to-end scenario\<close>

text \<open>
  Claim C9. For the payload of the scenario and any URL containing \<^verbatim>\<open>falabella.com\<close>, the
  orchestrator as its constructor sets it up returns exactly one product, with productId
  "123", price amount 999 and currency "PEN", and reports the strategy "Falabella" and no
  error.
\<close>

theorem falabella_scenario:
  "str_includes u ''falabella.com'' \<longrightarrow>
     map productId (products (extractProducts (new_ProductExtractorService P) now falabella_payload u j)) =
       [JStr ''123'']
   \<and> map (\<lambda>p. amount (Product.price p))
        (products (extractProducts (new_ProductExtractorService P) now falabella_payload u j)) = [Num 999]
   \<and> map (\<lambda>p. currency (Product.price p))
        (products (extractProducts (new_ProductExtractorService P) now falabella_payload u j)) = [''PEN'']
   \<and> strategyUsed (ProductExtractionResult.metadata
        (extractProducts (new_ProductExtractorService P) now falabella_payload u j)) = Some ''Falabella''
   \<and> totalExtracted (ProductExtractionResult.metadata
        (extractProducts (new_ProductExtractorService P) now falabella_payload u j)) = 1
   \<and> errors (ProductExtractionResult.metadata
        (extractProducts (new_ProductExtractorService P) now falabella_payload u j)) = None"
  by (simp add: extractProducts_def extractProducts_try_def ProductExtractor_findStrategy_def
        new_ProductExtractorService_def FalabellaStrategy_def Falabella_canHandle_def
        Falabella_extract_payload Let_def)

theorem falabella_scenario_witness:
  "str_includes ''https://www.falabella.com.pe/category/cat760706'' ''falabella.com''
   \<and> map productId (products (extractProducts (new_ProductExtractorService example_platform) 7
        falabella_payload ''https://www.falabella.com.pe/category/cat760706'' (Some ''job_001''))) =
       [JStr ''123'']
   \<and> strategyUsed (ProductExtractionResult.metadata
        (extractProducts (new_ProductExtractorService example_platform) 7
        falabella_payload ''https://www.falabella.com.pe/category/cat760706'' (Some ''job_001''))) =
       Some ''Falabella''"
proof -
  have inc: "str_includes ''https://www.falabella.com.pe/category/cat760706'' ''falabella.com''"
    by simp
  from falabella_scenario [of "''https://www.falabella.com.pe/category/cat760706''" example_platform 7 "Some ''job_001''",
      THEN mp, OF inc]
  show ?thesis using inc by blast
qed

section \<open>Extraction orchestrators\<close>

lemma first_handling_found:
  "ss = pre @ s # post \<Longrightarrow> \<forall>p \<in> set pre. canHandle p d u = Inr False \<Longrightarrow>
   canHandle s d u = Inr True \<Longrightarrow> first_handling ss d u = Inr (Some s)"
  by (induction pre arbitrary: ss) auto

lemma first_handling_none:
  "\<forall>p \<in> set ss. canHandle p d u = Inr False \<Longrightarrow> first_handling ss d u = Inr None"
  by (induction ss) auto

lemma first_handling_throws:
  "ss = pre @ s # post \<Longrightarrow> \<forall>p \<in> set pre. canHandle p d u = Inr False \<Longrightarrow>
   canHandle s d u = Inl e \<Longrightarrow> first_handling ss d u = Inl e"
  by (induction pre arbitrary: ss) auto


lemma Falabella_declines:
  "canHandle (FalabellaStrategy P) JNull ''https://example.com/catalog'' = Inr False"
  by (simp add: FalabellaStrategy_def Falabella_canHandle_def js_defs)

lemma Urbania_declines:
  "canHandle (UrbaniaStrategy ex) d ''https://example.com/catalog'' = Inr False"
  by (simp add: UrbaniaStrategy_def Urbania_canHandle_def)


lemma default_product_result:
  "extractProducts (new_ProductExtractorService P) now d u j =
     (if Falabella_canHandle d u
      then \<lparr> products = Falabella_extract P d u j,
             ProductExtractionResult.metadata =
               \<lparr> totalExtracted = length (Falabella_extract P d u j), source = u, extractedAt = now,
                 strategyUsed = Some ''Falabella'', errors = None \<rparr> \<rparr>
      else \<lparr> products = Generic_extract P d u j,
             ProductExtractionResult.metadata =
               \<lparr> totalExtracted = length (Generic_extract P d u j), source = u, extractedAt = now,
                 strategyUsed = Some ''Generic'', errors = None \<rparr> \<rparr>)"
  by (simp add: extractProducts_def extractProducts_try_def ProductExtractor_findStrategy_def
        new_ProductExtractorService_def FalabellaStrategy_def GenericStrategy_def)

lemma extractProducts_caught:
  "extractProducts_try svc now d u j = Inl e \<Longrightarrow>
   extractProducts svc now d u j =
     \<lparr> products = [],
       ProductExtractionResult.metadata =
         \<lparr> totalExtracted = 0, source = u, extractedAt = now, strategyUsed = None,
           errors = Some [''Extraction error: '' @ errorMsg e] \<rparr> \<rparr>"
  by (simp add: extractProducts_def)

lemma extractListings_caught:
  "extractListings_try svc now d u j = Inl e \<Longrightarrow>
   extractListings svc now d u j =
     \<lparr> listings = [],
       RealEstateExtractionResult.metadata =
         \<lparr> totalExtracted = 0, source = u, extractedAt = now, strategyUsed = None,
           errors = Some [''Extraction error: '' @ errorMsg e] \<rparr> \<rparr>"
  by (simp add: extractListings_def)

lemma default_listing_result:
  "extractListings (new_RealEstateExtractorService ex) now d u j =
     (if Urbania_canHandle d u
      then \<lparr> listings = ex d u j,
             RealEstateExtractionResult.metadata =
               \<lparr> totalExtracted = length (ex d u j), source = u, extractedAt = now,
                 strategyUsed = Some ''Urbania'', errors = None \<rparr> \<rparr>
      else \<lparr> listings = [],
             RealEstateExtractionResult.metadata =
               \<lparr> totalExtracted = 0, source = u, extractedAt = now, strategyUsed = None,
                 errors = Some [''No strategy found for this real estate site''] \<rparr> \<rparr>)"
  by (simp add: extractListings_def extractListings_try_def RealEstateExtractor_findStrategy_def
        new_RealEstateExtractorService_def UrbaniaStrategy_def)

lemma Falabella_try_null:
  "Falabella_extract_try P (JArr [JNull]) u j = None"
  by (simp add: Falabella_extract_try_def js_defs Falabella_keeps_def Let_def)

text \<open>
  Claim C6, as the code has it. \<^verbatim>\<open>extractProducts\<close> and \<^verbatim>\<open>extractListings\<close> return a result for
  every payload, URL and job id. What reaches their \<^verbatim>\<open>catch\<close> is an exception thrown by the
  \<^verbatim>\<open>canHandle\<close> of a registered strategy before any strategy has claimed the payload, or by
  the \<^verbatim>\<open>extract\<close> of the strategy selected. The result then has no entity, a count of 0, no
  strategy name and one error text: "Extraction error: " followed by the message of the thrown
  \<^verbatim>\<open>Error\<close>, or by "Unknown error" when the thrown value is no \<^verbatim>\<open>Error\<close>. When nothing is
  thrown that far, the result holds what the strategy found and no error. An exception inside
  the \<^verbatim>\<open>extract\<close> of the Falabella or the generic strategy is not thrown that far: the
  strategy catches it and returns an empty list. So the product orchestrator as its
  constructor sets it up reports no error for any input, and the real-estate orchestrator as
  its constructor sets it up reports none for a URL the Urbania strategy claims.
\<close>

theorem extract_never_raises:
  "(ProductExtractorService.strategies svc = pre @ s # post \<and>
    (\<forall>p \<in> set pre. canHandle p d u = Inr False) \<and>
    (canHandle s d u = Inl e \<or> (canHandle s d u = Inr True \<and> extract' s d u j = Inl e)) \<longrightarrow>
      extractProducts svc now d u j =
        \<lparr> products = [],
          ProductExtractionResult.metadata =
            \<lparr> totalExtracted = 0, source = u, extractedAt = now, strategyUsed = None,
              errors = Some [''Extraction error: '' @ errorMsg e] \<rparr> \<rparr>)
   \<and> (RealEstateExtractorService.strategies rsvc = rpre @ r # rpost \<and>
    (\<forall>p \<in> set rpre. canHandle p d u = Inr False) \<and>
    (canHandle r d u = Inl e \<or> (canHandle r d u = Inr True \<and> extract' r d u j = Inl e)) \<longrightarrow>
      extractListings rsvc now d u j =
        \<lparr> listings = [],
          RealEstateExtractionResult.metadata =
            \<lparr> totalExtracted = 0, source = u, extractedAt = now, strategyUsed = None,
              errors = Some [''Extraction error: '' @ errorMsg e] \<rparr> \<rparr>)
   \<and> errorMsg (ThrownError m) = m
   \<and> errorMsg ThrownOther = ''Unknown error''
   \<and> ((\<exists>s ps. ProductExtractor_findStrategy svc d u = Inr s \<and> extract' s d u j = Inr ps \<and>
          products (extractProducts svc now d u j) = ps \<and>
          errors (ProductExtractionResult.metadata (extractProducts svc now d u j)) = None) \<or>
       (\<exists>x. (ProductExtractor_findStrategy svc d u = Inl x \<or>
             (\<exists>s. ProductExtractor_findStrategy svc d u = Inr s \<and> extract' s d u j = Inl x))))
   \<and> ((\<exists>s ls. RealEstateExtractor_findStrategy rsvc d u = Inr (Some s) \<and> extract' s d u j = Inr ls \<and>
          listings (extractListings rsvc now d u j) = ls \<and>
          errors (RealEstateExtractionResult.metadata (extractListings rsvc now d u j)) = None) \<or>
       (RealEstateExtractor_findStrategy rsvc d u = Inr None \<and>
          listings (extractListings rsvc now d u j) = [] \<and>
          errors (RealEstateExtractionResult.metadata (extractListings rsvc now d u j)) =
            Some [''No strategy found for this real estate site'']) \<or>
       (\<exists>x. (RealEstateExtractor_findStrategy rsvc d u = Inl x \<or>
             (\<exists>s. RealEstateExtractor_findStrategy rsvc d u = Inr (Some s) \<and> extract' s d u j = Inl x))))
   \<and> (Falabella_extract_try P d u j = None \<longrightarrow> Falabella_extract P d u j = [])
   \<and> (Generic_extract_try P d u j = None \<longrightarrow> Generic_extract P d u j = [])
   \<and> errors (ProductExtractionResult.metadata
        (extractProducts (new_ProductExtractorService P) now d u j)) = None
   \<and> errors (RealEstateExtractionResult.metadata
        (extractListings (new_RealEstateExtractorService ex) now d u j)) =
       (if Urbania_canHandle d u then None
        else Some [''No strategy found for this real estate site''])"
proof (intro conjI impI)
  assume a: "ProductExtractorService.strategies svc = pre @ s # post \<and>
    (\<forall>p \<in> set pre. canHandle p d u = Inr False) \<and>
    (canHandle s d u = Inl e \<or> (canHandle s d u = Inr True \<and> extract' s d u j = Inl e))"
  have "extractProducts_try svc now d u j = Inl e"
  proof (cases "canHandle s d u = Inl e")
    case True
    with a have "first_handling (ProductExtractorService.strategies svc) d u = Inl e"
      using first_handling_throws by blast
    then show ?thesis
      by (simp add: extractProducts_try_def ProductExtractor_findStrategy_def)
  next
    case False
    with a have c: "canHandle s d u = Inr True" and x: "extract' s d u j = Inl e" by auto
    from a c have "first_handling (ProductExtractorService.strategies svc) d u = Inr (Some s)"
      using first_handling_found by blast
    with x show ?thesis
      by (simp add: extractProducts_try_def ProductExtractor_findStrategy_def)
  qed
  then show "extractProducts svc now d u j =
        \<lparr> products = [],
          ProductExtractionResult.metadata =
            \<lparr> totalExtracted = 0, source = u, extractedAt = now, strategyUsed = None,
              errors = Some [''Extraction error: '' @ errorMsg e] \<rparr> \<rparr>"
    by (rule extractProducts_caught)
next
  assume a: "RealEstateExtractorService.strategies rsvc = rpre @ r # rpost \<and>
    (\<forall>p \<in> set rpre. canHandle p d u = Inr False) \<and>
    (canHandle r d u = Inl e \<or> (canHandle r d u = Inr True \<and> extract' r d u j = Inl e))"
  have "extractListings_try rsvc now d u j = Inl e"
  proof (cases "canHandle r d u = Inl e")
    case True
    with a have "first_handling (RealEstateExtractorService.strategies rsvc) d u = Inl e"
      using first_handling_throws by blast
    then show ?thesis
      by (simp add: extractListings_try_def RealEstateExtractor_findStrategy_def)
  next
    case False
    with a have c: "canHandle r d u = Inr True" and x: "extract' r d u j = Inl e" by auto
    from a c have "first_handling (RealEstateExtractorService.strategies rsvc) d u = Inr (Some r)"
      using first_handling_found by blast
    with x show ?thesis
      by (simp add: extractListings_try_def RealEstateExtractor_findStrategy_def)
  qed
  then show "extractListings rsvc now d u j =
        \<lparr> listings = [],
          RealEstateExtractionResult.metadata =
            \<lparr> totalExtracted = 0, source = u, extractedAt = now, strategyUsed = None,
              errors = Some [''Extraction error: '' @ errorMsg e] \<rparr> \<rparr>"
    by (rule extractListings_caught)
next
  show "errorMsg (ThrownError m) = m" by (simp add: errorMsg_def)
  show "errorMsg ThrownOther = ''Unknown error''" by (simp add: errorMsg_def)
next
  show "(\<exists>s ps. ProductExtractor_findStrategy svc d u = Inr s \<and> extract' s d u j = Inr ps \<and>
          products (extractProducts svc now d u j) = ps \<and>
          errors (ProductExtractionResult.metadata (extractProducts svc now d u j)) = None) \<or>
       (\<exists>x. (ProductExtractor_findStrategy svc d u = Inl x \<or>
             (\<exists>s. ProductExtractor_findStrategy svc d u = Inr s \<and> extract' s d u j = Inl x)))"
  proof (cases "ProductExtractor_findStrategy svc d u")
    case (Inl x)
    then show ?thesis by blast
  next
    case (Inr s)
    show ?thesis
    proof (cases "extract' s d u j")
      case (Inl x)
      with Inr show ?thesis by blast
    next
      case (Inr ps)
      with \<open>ProductExtractor_findStrategy svc d u = Inr s\<close> show ?thesis
        by (simp add: extractProducts_def extractProducts_try_def)
    qed
  qed
next
  show "(\<exists>s ls. RealEstateExtractor_findStrategy rsvc d u = Inr (Some s) \<and> extract' s d u j = Inr ls \<and>
          listings (extractListings rsvc now d u j) = ls \<and>
          errors (RealEstateExtractionResult.metadata (extractListings rsvc now d u j)) = None) \<or>
       (RealEstateExtractor_findStrategy rsvc d u = Inr None \<and>
          listings (extractListings rsvc now d u j) = [] \<and>
          errors (RealEstateExtractionResult.metadata (extractListings rsvc now d u j)) =
            Some [''No strategy found for this real estate site'']) \<or>
       (\<exists>x. (RealEstateExtractor_findStrategy rsvc d u = Inl x \<or>
             (\<exists>s. RealEstateExtractor_findStrategy rsvc d u = Inr (Some s) \<and> extract' s d u j = Inl x)))"
  proof (cases "RealEstateExtractor_findStrategy rsvc d u")
    case (Inl x)
    then show ?thesis by blast
  next
    case (Inr found)
    show ?thesis
    proof (cases found)
      case None
      with Inr show ?thesis
        by (simp add: extractListings_def extractListings_try_def)
    next
      case (Some s)
      show ?thesis
      proof (cases "extract' s d u j")
        case (Inl x)
        with Inr Some show ?thesis by blast
      next
        case (Inr ls)
        with \<open>RealEstateExtractor_findStrategy rsvc d u = Inr found\<close> Some show ?thesis
          by (simp add: extractListings_def extractListings_try_def)
      qed
    qed
  qed
next
  assume "Falabella_extract_try P d u j = None"
  then show "Falabella_extract P d u j = []" by (simp add: Falabella_extract_def)
next
  assume "Generic_extract_try P d u j = None"
  then show "Generic_extract P d u j = []" by (simp add: Generic_extract_def)
next
  show "errors (ProductExtractionResult.metadata
        (extractProducts (new_ProductExtractorService P) now d u j)) = None"
    by (simp add: default_product_result)
next
  show "errors (RealEstateExtractionResult.metadata
        (extractListings (new_RealEstateExtractorService ex) now d u j)) =
       (if Urbania_canHandle d u then None
        else Some [''No strategy found for this real estate site''])"
    by (simp add: default_listing_result)
qed

text \<open>
  Claim C6 fails for an exception inside a strategy of the repository. For the payload
  \<^verbatim>\<open>[null]\<close> and a Falabella URL the Falabella strategy throws while it reads
  \<^verbatim>\<open>item.productId\<close> of \<^verbatim>\<open>null\<close>; it catches the exception itself, and the orchestrator
  returns an empty product list with the strategy's name and without an errors list.
\<close>

theorem swallowed_exception_counterexample:
  "Falabella_extract_try example_platform (JArr [JNull])
      ''https://www.falabella.com.pe/category/cat760706'' None = None
   \<and> extractProducts (new_ProductExtractorService example_platform) 7 (JArr [JNull])
        ''https://www.falabella.com.pe/category/cat760706'' None =
       \<lparr> products = [],
         ProductExtractionResult.metadata =
           \<lparr> totalExtracted = 0, source = ''https://www.falabella.com.pe/category/cat760706'',
             extractedAt = 7, strategyUsed = Some ''Falabella'', errors = None \<rparr> \<rparr>"
  by (simp add: Falabella_try_null default_product_result Falabella_canHandle_def
        Falabella_extract_def)

theorem extract_never_raises_witness:
  "extractProducts
      (ProductExtractor_registerStrategy (new_ProductExtractorService example_platform) failing_strategy)
      7 generic_payload ''https://example.com/catalog'' None =
     \<lparr> products = [],
       ProductExtractionResult.metadata =
         \<lparr> totalExtracted = 0, source = ''https://example.com/catalog'', extractedAt = 7,
           strategyUsed = None, errors = Some [''Extraction error: boom''] \<rparr> \<rparr>
   \<and> extractProducts
      (ProductExtractor_registerStrategy
         (ProductExtractor_registerStrategy (new_ProductExtractorService example_platform)
            throwing_predicate_strategy)
         failing_strategy)
      7 generic_payload ''https://example.com/catalog'' None =
     \<lparr> products = [],
       ProductExtractionResult.metadata =
         \<lparr> totalExtracted = 0, source = ''https://example.com/catalog'', extractedAt = 7,
           strategyUsed = None, errors = Some [''Extraction error: bad predicate''] \<rparr> \<rparr>
   \<and> (\<forall>ex. extractListings
      (RealEstateExtractor_registerStrategy
         (RealEstateExtractor_registerStrategy (new_RealEstateExtractorService ex)
            throwing_predicate_strategy)
         failing_strategy)
      7 generic_payload ''https://example.com/catalog'' None =
     \<lparr> listings = [],
       RealEstateExtractionResult.metadata =
         \<lparr> totalExtracted = 0, source = ''https://example.com/catalog'', extractedAt = 7,
           strategyUsed = None, errors = Some [''Extraction error: bad predicate''] \<rparr> \<rparr>)
   \<and> (\<forall>ex. extractListings
      (RealEstateExtractor_registerStrategy (new_RealEstateExtractorService ex) failing_strategy)
      7 generic_payload ''https://example.com/catalog'' None =
     \<lparr> listings = [],
       RealEstateExtractionResult.metadata =
         \<lparr> totalExtracted = 0, source = ''https://example.com/catalog'', extractedAt = 7,
           strategyUsed = None, errors = Some [''Extraction error: boom''] \<rparr> \<rparr>)
   \<and> Falabella_extract_try example_platform (JArr [JNull])
        ''https://www.falabella.com.pe/category/cat760706'' None = None
   \<and> Falabella_extract example_platform (JArr [JNull])
        ''https://www.falabella.com.pe/category/cat760706'' None = []"
proof -
  let ?P = example_platform
  let ?F = "FalabellaStrategy ?P"
  let ?u = "''https://example.com/catalog''"
  let ?fu = "''https://www.falabella.com.pe/category/cat760706''"
  let ?s1 = "ProductExtractor_registerStrategy (new_ProductExtractorService ?P) failing_strategy"
  let ?s2 = "ProductExtractor_registerStrategy
         (ProductExtractor_registerStrategy (new_ProductExtractorService ?P) throwing_predicate_strategy)
         failing_strategy"
  have fdecl: "\<forall>p \<in> set [?F]. canHandle p generic_payload ?u = Inr False"
    by (simp add: FalabellaStrategy_def Falabella_canHandle_def generic_payload_def js_defs)
  have udecl: "\<forall>p \<in> set [UrbaniaStrategy ex]. canHandle p generic_payload ?u = Inr False" for ex
    by (simp add: Urbania_declines)
  have msg: "errorMsg (ThrownError ''boom'') = ''boom''"
      "errorMsg (ThrownError ''bad predicate'') = ''bad predicate''"
    using extract_never_raises [where m = "''boom''", THEN conjunct2, THEN conjunct2, THEN conjunct1]
      extract_never_raises [where m = "''bad predicate''", THEN conjunct2, THEN conjunct2, THEN conjunct1]
    by simp_all
  \<comment> \<open>the selected strategy's extract throws\<close>
  have h1: "ProductExtractorService.strategies ?s1 = [?F] @ failing_strategy # [] \<and>
      (\<forall>p \<in> set [?F]. canHandle p generic_payload ?u = Inr False) \<and>
      (canHandle (failing_strategy :: Product ExtractionStrategy) generic_payload ?u = Inl (ThrownError ''boom'') \<or>
       (canHandle (failing_strategy :: Product ExtractionStrategy) generic_payload ?u = Inr True \<and>
        extract' (failing_strategy :: Product ExtractionStrategy) generic_payload ?u None = Inl (ThrownError ''boom'')))"
    using fdecl
    by (simp add: ProductExtractor_registerStrategy_def new_ProductExtractorService_def failing_strategy_def)
  note r1 = extract_never_raises [where svc = ?s1 and pre = "[?F]" and post = "[]"
      and d = generic_payload and u = ?u and j = None and now = 7 and e = "ThrownError ''boom''",
      THEN conjunct1, THEN mp, OF h1]
  \<comment> \<open>a predicate throws before any strategy claims the payload\<close>
  have h2: "ProductExtractorService.strategies ?s2 =
        [?F] @ throwing_predicate_strategy # [failing_strategy] \<and>
      (\<forall>p \<in> set [?F]. canHandle p generic_payload ?u = Inr False) \<and>
      (canHandle (throwing_predicate_strategy :: Product ExtractionStrategy) generic_payload ?u =
         Inl (ThrownError ''bad predicate'') \<or>
       (canHandle (throwing_predicate_strategy :: Product ExtractionStrategy) generic_payload ?u = Inr True \<and>
        extract' (throwing_predicate_strategy :: Product ExtractionStrategy) generic_payload ?u None =
          Inl (ThrownError ''bad predicate'')))"
    using fdecl
    by (simp add: ProductExtractor_registerStrategy_def new_ProductExtractorService_def
          throwing_predicate_strategy_def)
  note r2 = extract_never_raises [where svc = ?s2 and pre = "[?F]" and post = "[failing_strategy]"
      and d = generic_payload and u = ?u and j = None and now = 7 and e = "ThrownError ''bad predicate''",
      THEN conjunct1, THEN mp, OF h2]
  \<comment> \<open>the same for listings, whatever Urbania's extract is\<close>
  have r3: "extractListings
      (RealEstateExtractor_registerStrategy
         (RealEstateExtractor_registerStrategy (new_RealEstateExtractorService ex)
            throwing_predicate_strategy)
         failing_strategy)
      7 generic_payload ?u None =
     \<lparr> listings = [],
       RealEstateExtractionResult.metadata =
         \<lparr> totalExtracted = 0, source = ?u, extractedAt = 7,
           strategyUsed = None, errors = Some [''Extraction error: bad predicate''] \<rparr> \<rparr>" for ex
  proof -
    let ?r = "RealEstateExtractor_registerStrategy
         (RealEstateExtractor_registerStrategy (new_RealEstateExtractorService ex)
            throwing_predicate_strategy)
         failing_strategy"
    have h: "RealEstateExtractorService.strategies ?r =
          [UrbaniaStrategy ex] @ throwing_predicate_strategy # [failing_strategy] \<and>
        (\<forall>p \<in> set [UrbaniaStrategy ex]. canHandle p generic_payload ?u = Inr False) \<and>
        (canHandle (throwing_predicate_strategy :: RealEstateListing ExtractionStrategy) generic_payload ?u =
           Inl (ThrownError ''bad predicate'') \<or>
         (canHandle (throwing_predicate_strategy :: RealEstateListing ExtractionStrategy) generic_payload ?u = Inr True \<and>
          extract' (throwing_predicate_strategy :: RealEstateListing ExtractionStrategy) generic_payload ?u None =
            Inl (ThrownError ''bad predicate'')))"
      using udecl [of ex]
      by (simp add: RealEstateExtractor_registerStrategy_def new_RealEstateExtractorService_def
            throwing_predicate_strategy_def)
    from extract_never_raises [where rsvc = ?r and rpre = "[UrbaniaStrategy ex]"
        and rpost = "[failing_strategy]" and d = generic_payload and u = ?u and j = None and now = 7
        and e = "ThrownError ''bad predicate''",
        THEN conjunct2, THEN conjunct1, THEN mp, OF h]
    show ?thesis by (simp add: msg)
  qed
  have r4: "extractListings
      (RealEstateExtractor_registerStrategy (new_RealEstateExtractorService ex) failing_strategy)
      7 generic_payload ?u None =
     \<lparr> listings = [],
       RealEstateExtractionResult.metadata =
         \<lparr> totalExtracted = 0, source = ?u, extractedAt = 7,
           strategyUsed = None, errors = Some [''Extraction error: boom''] \<rparr> \<rparr>" for ex
  proof -
    let ?r = "RealEstateExtractor_registerStrategy (new_RealEstateExtractorService ex) failing_strategy"
    have h: "RealEstateExtractorService.strategies ?r = [UrbaniaStrategy ex] @ failing_strategy # [] \<and>
        (\<forall>p \<in> set [UrbaniaStrategy ex]. canHandle p generic_payload ?u = Inr False) \<and>
        (canHandle (failing_strategy :: RealEstateListing ExtractionStrategy) generic_payload ?u =
           Inl (ThrownError ''boom'') \<or>
         (canHandle (failing_strategy :: RealEstateListing ExtractionStrategy) generic_payload ?u = Inr True \<and>
          extract' (failing_strategy :: RealEstateListing ExtractionStrategy) generic_payload ?u None =
            Inl (ThrownError ''boom'')))"
      using udecl [of ex]
      by (simp add: RealEstateExtractor_registerStrategy_def new_RealEstateExtractorService_def
            failing_strategy_def)
    from extract_never_raises [where rsvc = ?r and rpre = "[UrbaniaStrategy ex]"
        and rpost = "[]" and d = generic_payload and u = ?u and j = None and now = 7
        and e = "ThrownError ''boom''",
        THEN conjunct2, THEN conjunct1, THEN mp, OF h]
    show ?thesis by (simp add: msg)
  qed
  \<comment> \<open>an exception inside the Falabella strategy stays there\<close>
  have t: "Falabella_extract_try ?P (JArr [JNull]) ?fu None = None"
    by (rule Falabella_try_null)
  note r5 = extract_never_raises [where P = ?P and d = "JArr [JNull]" and u = ?fu and j = None,
      THEN conjunct2, THEN conjunct2, THEN conjunct2, THEN conjunct2, THEN conjunct2,
      THEN conjunct2, THEN conjunct1, THEN mp, OF t]
  show ?thesis
    using r1 r2 r3 r4 t r5 by (simp add: msg)
qed

lemma ProductExtractor_register_all:
  "ProductExtractorService.strategies (foldl ProductExtractor_registerStrategy svc regs) =
   ProductExtractorService.strategies svc @ regs"
  by (induction regs arbitrary: svc) (simp_all add: ProductExtractor_registerStrategy_def)

lemma ProductExtractor_register_all_fallback:
  "fallbackStrategy (foldl ProductExtractor_registerStrategy svc regs) = fallbackStrategy svc"
  by (induction regs arbitrary: svc) (simp_all add: ProductExtractor_registerStrategy_def)

lemma RealEstateExtractor_register_all:
  "RealEstateExtractorService.strategies (foldl RealEstateExtractor_registerStrategy rsvc regs) =
   RealEstateExtractorService.strategies rsvc @ regs"
  by (induction regs arbitrary: rsvc) (simp_all add: RealEstateExtractor_registerStrategy_def)

text \<open>
  Claim C7, as the code has it. \<^verbatim>\<open>registerStrategy\<close> puts a strategy at the end of the list
  (the fallback stays as it is), so after any sequence of registrations the list holds the
  constructor's strategy followed by the registered ones in the order of their registration.
  Both orchestrators use the first strategy of that list whose \<^verbatim>\<open>canHandle\<close> returns true,
  and report its name: of two strategies registered one after the other on a service none of
  whose strategies claims the payload, the one registered first is used whenever it claims
  the payload, whatever the second does. When no registered strategy claims the payload, the
  product orchestrator uses its fallback, the generic strategy, which claims every payload and
  does not throw: as its constructor sets it up it reports no error for any payload,
  "Falabella" whenever the Falabella strategy claims the payload and "Generic" otherwise. The
  real-estate orchestrator has no fallback: when no registered strategy claims the payload it
  returns no listing, no strategy name and the error "No strategy found for this real estate
  site".
\<close>

theorem strategy_selection:
  "(ProductExtractorService.strategies svc = pre @ s # post \<and> (\<forall>p \<in> set pre. canHandle p d u = Inr False) \<and>
    canHandle s d u = Inr True \<longrightarrow>
      ProductExtractor_findStrategy svc d u = Inr s \<and>
      (\<forall>ps. extract' s d u j = Inr ps \<longrightarrow>
         products (extractProducts svc now d u j) = ps \<and>
         strategyUsed (ProductExtractionResult.metadata (extractProducts svc now d u j)) = Some (name s)))
   \<and> ((\<forall>p \<in> set (ProductExtractorService.strategies svc). canHandle p d u = Inr False) \<longrightarrow>
      ProductExtractor_findStrategy svc d u = Inr (fallbackStrategy svc))
   \<and> ProductExtractorService.strategies (new_ProductExtractorService P) = [FalabellaStrategy P]
   \<and> fallbackStrategy (new_ProductExtractorService P) = GenericStrategy P
   \<and> canHandle (GenericStrategy P) d u = Inr True
   \<and> extract' (GenericStrategy P) d u j = Inr (Generic_extract P d u j)
   \<and> errors (ProductExtractionResult.metadata
        (extractProducts (new_ProductExtractorService P) now d u j)) = None
   \<and> (canHandle (FalabellaStrategy P) d u = Inr True \<longrightarrow>
        strategyUsed (ProductExtractionResult.metadata
          (extractProducts (new_ProductExtractorService P) now d u j)) = Some ''Falabella'')
   \<and> (canHandle (FalabellaStrategy P) d u = Inr False \<longrightarrow>
        strategyUsed (ProductExtractionResult.metadata
          (extractProducts (new_ProductExtractorService P) now d u j)) = Some ''Generic'')
   \<and> (RealEstateExtractorService.strategies rsvc = rpre @ r # rpost \<and>
      (\<forall>p \<in> set rpre. canHandle p d u = Inr False) \<and> canHandle r d u = Inr True \<longrightarrow>
      RealEstateExtractor_findStrategy rsvc d u = Inr (Some r) \<and>
      (\<forall>ls. extract' r d u j = Inr ls \<longrightarrow>
         listings (extractListings rsvc now d u j) = ls \<and>
         strategyUsed (RealEstateExtractionResult.metadata (extractListings rsvc now d u j)) = Some (name r)))
   \<and> ((\<forall>p \<in> set (RealEstateExtractorService.strategies rsvc). canHandle p d u = Inr False) \<longrightarrow>
      RealEstateExtractor_findStrategy rsvc d u = Inr None \<and>
      listings (extractListings rsvc now d u j) = [] \<and>
      strategyUsed (RealEstateExtractionResult.metadata (extractListings rsvc now d u j)) = None \<and>
      errors (RealEstateExtractionResult.metadata (extractListings rsvc now d u j)) =
        Some [''No strategy found for this real estate site''])
   \<and> ProductExtractorService.strategies (ProductExtractor_registerStrategy svc a) =
       ProductExtractorService.strategies svc @ [a]
   \<and> fallbackStrategy (ProductExtractor_registerStrategy svc a) = fallbackStrategy svc
   \<and> ProductExtractorService.strategies (foldl ProductExtractor_registerStrategy svc regs) =
       ProductExtractorService.strategies svc @ regs
   \<and> fallbackStrategy (foldl ProductExtractor_registerStrategy svc regs) = fallbackStrategy svc
   \<and> RealEstateExtractorService.strategies (RealEstateExtractor_registerStrategy rsvc ra) =
       RealEstateExtractorService.strategies rsvc @ [ra]
   \<and> RealEstateExtractorService.strategies (foldl RealEstateExtractor_registerStrategy rsvc rregs) =
       RealEstateExtractorService.strategies rsvc @ rregs
   \<and> RealEstateExtractorService.strategies (new_RealEstateExtractorService ex) = [UrbaniaStrategy ex]
   \<and> ((\<forall>p \<in> set (ProductExtractorService.strategies svc). canHandle p d u = Inr False) \<and>
      canHandle a d u = Inr True \<longrightarrow>
      ProductExtractor_findStrategy
        (ProductExtractor_registerStrategy (ProductExtractor_registerStrategy svc a) b) d u = Inr a)
   \<and> ((\<forall>p \<in> set (RealEstateExtractorService.strategies rsvc). canHandle p d u = Inr False) \<and>
      canHandle ra d u = Inr True \<longrightarrow>
      RealEstateExtractor_findStrategy
        (RealEstateExtractor_registerStrategy (RealEstateExtractor_registerStrategy rsvc ra) rb) d u =
        Inr (Some ra))"
proof (intro conjI impI allI)
  assume a: "ProductExtractorService.strategies svc = pre @ s # post \<and> (\<forall>p \<in> set pre. canHandle p d u = Inr False) \<and>
    canHandle s d u = Inr True"
  then have f: "first_handling (ProductExtractorService.strategies svc) d u = Inr (Some s)"
    using first_handling_found by blast
  then show found: "ProductExtractor_findStrategy svc d u = Inr s"
    by (simp add: ProductExtractor_findStrategy_def)
  fix ps assume "extract' s d u j = Inr ps"
  with found show "products (extractProducts svc now d u j) = ps"
    and "strategyUsed (ProductExtractionResult.metadata (extractProducts svc now d u j)) = Some (name s)"
    by (simp_all add: extractProducts_def extractProducts_try_def)
next
  assume "\<forall>p \<in> set (ProductExtractorService.strategies svc). canHandle p d u = Inr False"
  then have "first_handling (ProductExtractorService.strategies svc) d u = Inr None"
    by (rule first_handling_none)
  then show "ProductExtractor_findStrategy svc d u = Inr (fallbackStrategy svc)"
    by (simp add: ProductExtractor_findStrategy_def)
next
  show "ProductExtractorService.strategies (new_ProductExtractorService P) = [FalabellaStrategy P]"
    and "fallbackStrategy (new_ProductExtractorService P) = GenericStrategy P"
    by (simp_all add: new_ProductExtractorService_def)
  show "canHandle (GenericStrategy P) d u = Inr True"
    and "extract' (GenericStrategy P) d u j = Inr (Generic_extract P d u j)"
    by (simp_all add: GenericStrategy_def Generic_canHandle_def)
  show "errors (ProductExtractionResult.metadata
        (extractProducts (new_ProductExtractorService P) now d u j)) = None"
    by (simp add: default_product_result)
next
  assume "canHandle (FalabellaStrategy P) d u = Inr True"
  then show "strategyUsed (ProductExtractionResult.metadata
          (extractProducts (new_ProductExtractorService P) now d u j)) = Some ''Falabella''"
    by (simp add: default_product_result FalabellaStrategy_def)
next
  assume "canHandle (FalabellaStrategy P) d u = Inr False"
  then show "strategyUsed (ProductExtractionResult.metadata
          (extractProducts (new_ProductExtractorService P) now d u j)) = Some ''Generic''"
    by (simp add: default_product_result FalabellaStrategy_def)
next
  assume a: "RealEstateExtractorService.strategies rsvc = rpre @ r # rpost \<and>
      (\<forall>p \<in> set rpre. canHandle p d u = Inr False) \<and> canHandle r d u = Inr True"
  then have f: "first_handling (RealEstateExtractorService.strategies rsvc) d u = Inr (Some r)"
    using first_handling_found by blast
  then show found: "RealEstateExtractor_findStrategy rsvc d u = Inr (Some r)"
    by (simp add: RealEstateExtractor_findStrategy_def)
  fix ls assume "extract' r d u j = Inr ls"
  with found show "listings (extractListings rsvc now d u j) = ls"
    and "strategyUsed (RealEstateExtractionResult.metadata (extractListings rsvc now d u j)) = Some (name r)"
    by (simp_all add: extractListings_def extractListings_try_def)
next
  assume "\<forall>p \<in> set (RealEstateExtractorService.strategies rsvc). canHandle p d u = Inr False"
  then have "first_handling (RealEstateExtractorService.strategies rsvc) d u = Inr None"
    by (rule first_handling_none)
  then have none: "RealEstateExtractor_findStrategy rsvc d u = Inr None"
    by (simp add: RealEstateExtractor_findStrategy_def)
  then show "RealEstateExtractor_findStrategy rsvc d u = Inr None" .
  from none show "listings (extractListings rsvc now d u j) = []"
    and "strategyUsed (RealEstateExtractionResult.metadata (extractListings rsvc now d u j)) = None"
    and "errors (RealEstateExtractionResult.metadata (extractListings rsvc now d u j)) =
        Some [''No strategy found for this real estate site'']"
    by (simp_all add: extractListings_def extractListings_try_def)
next
  show "ProductExtractorService.strategies (ProductExtractor_registerStrategy svc a) =
       ProductExtractorService.strategies svc @ [a]"
    and "fallbackStrategy (ProductExtractor_registerStrategy svc a) = fallbackStrategy svc"
    by (simp_all add: ProductExtractor_registerStrategy_def)
  show "ProductExtractorService.strategies (foldl ProductExtractor_registerStrategy svc regs) =
       ProductExtractorService.strategies svc @ regs"
    by (rule ProductExtractor_register_all)
  show "fallbackStrategy (foldl ProductExtractor_registerStrategy svc regs) = fallbackStrategy svc"
    by (rule ProductExtractor_register_all_fallback)
  show "RealEstateExtractorService.strategies (RealEstateExtractor_registerStrategy rsvc ra) =
       RealEstateExtractorService.strategies rsvc @ [ra]"
    by (simp add: RealEstateExtractor_registerStrategy_def)
  show "RealEstateExtractorService.strategies (foldl RealEstateExtractor_registerStrategy rsvc rregs) =
       RealEstateExtractorService.strategies rsvc @ rregs"
    by (rule RealEstateExtractor_register_all)
  show "RealEstateExtractorService.strategies (new_RealEstateExtractorService ex) = [UrbaniaStrategy ex]"
    by (simp add: new_RealEstateExtractorService_def)
next
  assume a: "(\<forall>p \<in> set (ProductExtractorService.strategies svc). canHandle p d u = Inr False) \<and>
      canHandle a d u = Inr True"
  have "ProductExtractorService.strategies
          (ProductExtractor_registerStrategy (ProductExtractor_registerStrategy svc a) b) =
        ProductExtractorService.strategies svc @ a # [b]"
    by (simp add: ProductExtractor_registerStrategy_def)
  with a have "first_handling (ProductExtractorService.strategies
          (ProductExtractor_registerStrategy (ProductExtractor_registerStrategy svc a) b)) d u =
        Inr (Some a)"
    using first_handling_found by blast
  then show "ProductExtractor_findStrategy
        (ProductExtractor_registerStrategy (ProductExtractor_registerStrategy svc a) b) d u = Inr a"
    by (simp add: ProductExtractor_findStrategy_def)
next
  assume a: "(\<forall>p \<in> set (RealEstateExtractorService.strategies rsvc). canHandle p d u = Inr False) \<and>
      canHandle ra d u = Inr True"
  have "RealEstateExtractorService.strategies
          (RealEstateExtractor_registerStrategy (RealEstateExtractor_registerStrategy rsvc ra) rb) =
        RealEstateExtractorService.strategies rsvc @ ra # [rb]"
    by (simp add: RealEstateExtractor_registerStrategy_def)
  with a have "first_handling (RealEstateExtractorService.strategies
          (RealEstateExtractor_registerStrategy (RealEstateExtractor_registerStrategy rsvc ra) rb)) d u =
        Inr (Some ra)"
    using first_handling_found by blast
  then show "RealEstateExtractor_findStrategy
        (RealEstateExtractor_registerStrategy (RealEstateExtractor_registerStrategy rsvc ra) rb) d u =
        Inr (Some ra)"
    by (simp add: RealEstateExtractor_findStrategy_def)
qed

text \<open>
  Claim C7 fails for the real-estate orchestrator: for a URL no registered strategy claims, no
  fallback runs and the result reports an error, whatever the Urbania strategy would extract.
\<close>

theorem no_fallback_counterexample:
  "\<forall>ex. extractListings (new_RealEstateExtractorService ex) 7 generic_payload
        ''https://example.com/catalog'' None =
     \<lparr> listings = [],
       RealEstateExtractionResult.metadata =
         \<lparr> totalExtracted = 0, source = ''https://example.com/catalog'', extractedAt = 7,
           strategyUsed = None,
           errors = Some [''No strategy found for this real estate site''] \<rparr> \<rparr>"
  by (simp add: extractListings_def extractListings_try_def RealEstateExtractor_findStrategy_def
        new_RealEstateExtractorService_def Urbania_declines)

theorem strategy_selection_witness:
  "ProductExtractorService.strategies
      (ProductExtractor_registerStrategy
         (ProductExtractor_registerStrategy (new_ProductExtractorService example_platform)
            (claiming_strategy ''A''))
         (claiming_strategy ''B'')) =
     [FalabellaStrategy example_platform, claiming_strategy ''A'', claiming_strategy ''B'']
   \<and> ProductExtractor_findStrategy
      (ProductExtractor_registerStrategy
         (ProductExtractor_registerStrategy (new_ProductExtractorService example_platform)
            (claiming_strategy ''A''))
         (claiming_strategy ''B''))
      generic_payload ''https://example.com/catalog'' = Inr (claiming_strategy ''A'')
   \<and> strategyUsed (ProductExtractionResult.metadata
        (extractProducts
           (ProductExtractor_registerStrategy
              (ProductExtractor_registerStrategy (new_ProductExtractorService example_platform)
                 (claiming_strategy ''A''))
              (claiming_strategy ''B''))
           7 generic_payload ''https://example.com/catalog'' None)) = Some ''A''
   \<and> strategyUsed (ProductExtractionResult.metadata
        (extractProducts
           (ProductExtractor_registerStrategy
              (ProductExtractor_registerStrategy (new_ProductExtractorService example_platform)
                 (claiming_strategy ''A''))
              (claiming_strategy ''B''))
           7 falabella_payload ''https://www.falabella.com.pe/category/cat760706'' None)) =
       Some ''Falabella''
   \<and> strategyUsed (ProductExtractionResult.metadata
        (extractProducts (new_ProductExtractorService example_platform) 7 falabella_payload
           ''https://www.falabella.com.pe/category/cat760706'' None)) = Some ''Falabella''
   \<and> ProductExtractor_findStrategy (new_ProductExtractorService example_platform) generic_payload
        ''https://example.com/catalog'' = Inr (GenericStrategy example_platform)
   \<and> strategyUsed (ProductExtractionResult.metadata
        (extractProducts (new_ProductExtractorService example_platform) 7 generic_payload
           ''https://example.com/catalog'' None)) = Some ''Generic''
   \<and> (\<forall>ex. RealEstateExtractor_findStrategy
        (RealEstateExtractor_registerStrategy
           (RealEstateExtractor_registerStrategy (new_RealEstateExtractorService ex)
              (claiming_strategy ''A''))
           (claiming_strategy ''B''))
        generic_payload ''https://example.com/catalog'' = Inr (Some (claiming_strategy ''A'')))
   \<and> (\<forall>ex. strategyUsed (RealEstateExtractionResult.metadata
        (extractListings
           (RealEstateExtractor_registerStrategy
              (RealEstateExtractor_registerStrategy (new_RealEstateExtractorService ex)
                 (claiming_strategy ''A''))
              (claiming_strategy ''B''))
           7 generic_payload ''https://example.com/catalog'' None)) = Some ''A'')
   \<and> (\<forall>ex. strategyUsed (RealEstateExtractionResult.metadata
        (extractListings
           (RealEstateExtractor_registerStrategy
              (RealEstateExtractor_registerStrategy (new_RealEstateExtractorService ex)
                 (claiming_strategy ''A''))
              (claiming_strategy ''B''))
           7 generic_payload ''https://urbania.pe/inmueble/42'' None)) = Some ''Urbania'')
   \<and> (\<forall>ex. RealEstateExtractor_findStrategy (new_RealEstateExtractorService ex) generic_payload
        ''https://example.com/catalog'' = Inr None)"
proof -
  let ?P = example_platform
  let ?svc = "new_ProductExtractorService ?P"
  let ?F = "FalabellaStrategy ?P"
  let ?A = "claiming_strategy ''A'' :: Product ExtractionStrategy"
  let ?B = "claiming_strategy ''B'' :: Product ExtractionStrategy"
  let ?RA = "claiming_strategy ''A'' :: RealEstateListing ExtractionStrategy"
  let ?RB = "claiming_strategy ''B'' :: RealEstateListing ExtractionStrategy"
  let ?svc3 = "ProductExtractor_registerStrategy (ProductExtractor_registerStrategy ?svc ?A) ?B"
  let ?fu = "''https://www.falabella.com.pe/category/cat760706''"
  let ?eu = "''https://example.com/catalog''"
  let ?uu = "''https://urbania.pe/inmueble/42''"
  note S = strategy_selection [where P = ?P and now = 7 and j = None]
  \<comment> \<open>the registry after two registrations\<close>
  have reg0: "ProductExtractorService.strategies ?svc = [?F]"
    using S [THEN conjunct2, THEN conjunct2, THEN conjunct1] .
  note regA = S [where svc = ?svc and a = ?A, THEN conjunct2, THEN conjunct2, THEN conjunct2,
      THEN conjunct2, THEN conjunct2, THEN conjunct2, THEN conjunct2, THEN conjunct2,
      THEN conjunct2, THEN conjunct2, THEN conjunct2, THEN conjunct1]
  note regB = S [where svc = "ProductExtractor_registerStrategy ?svc ?A" and a = ?B,
      THEN conjunct2, THEN conjunct2, THEN conjunct2,
      THEN conjunct2, THEN conjunct2, THEN conjunct2, THEN conjunct2, THEN conjunct2,
      THEN conjunct2, THEN conjunct2, THEN conjunct2, THEN conjunct1]
  have reg3: "ProductExtractorService.strategies ?svc3 = [?F, ?A, ?B]"
    using reg0 regA regB by simp
  have claims: "canHandle ?F falabella_payload ?fu = Inr True"
    by (simp add: FalabellaStrategy_def Falabella_canHandle_def)
  have declines: "canHandle ?F generic_payload ?eu = Inr False"
    by (simp add: FalabellaStrategy_def Falabella_canHandle_def generic_payload_def js_defs)
  have Aclaims: "canHandle ?A generic_payload ?eu = Inr True"
    and Aextract: "extract' ?A generic_payload ?eu None = Inr []"
    and Aname: "name ?A = ''A''"
    by (simp_all add: claiming_strategy_def)
  \<comment> \<open>a strategy registered between two others is selected when the earlier one declines\<close>
  have h1: "ProductExtractorService.strategies ?svc3 = [?F] @ ?A # [?B] \<and>
      (\<forall>p \<in> set [?F]. canHandle p generic_payload ?eu = Inr False) \<and>
      canHandle ?A generic_payload ?eu = Inr True"
    using reg3 declines Aclaims by simp
  note a1 = S [where svc = ?svc3 and pre = "[?F]" and s = ?A and post = "[?B]"
      and d = generic_payload and u = ?eu, THEN conjunct1, THEN mp, OF h1]
  from a1 Aextract Aname
  have a2: "strategyUsed (ProductExtractionResult.metadata
        (extractProducts ?svc3 7 generic_payload ?eu None)) = Some ''A''"
    by simp
  \<comment> \<open>the strategy registered first wins over later ones that claim everything\<close>
  have h2: "ProductExtractorService.strategies ?svc3 = [] @ ?F # [?A, ?B] \<and>
      (\<forall>p \<in> set []. canHandle p falabella_payload ?fu = Inr False) \<and>
      canHandle ?F falabella_payload ?fu = Inr True"
    using reg3 claims by simp
  note b1 = S [where svc = ?svc3 and pre = "[]" and s = ?F and post = "[?A, ?B]"
      and d = falabella_payload and u = ?fu, THEN conjunct1, THEN mp, OF h2]
  have Fextract: "extract' ?F falabella_payload ?fu None =
      Inr (Falabella_extract ?P falabella_payload ?fu None)"
    and Fname: "name ?F = ''Falabella''"
    by (simp_all add: FalabellaStrategy_def)
  from b1 Fextract Fname
  have b2: "strategyUsed (ProductExtractionResult.metadata
        (extractProducts ?svc3 7 falabella_payload ?fu None)) = Some ''Falabella''"
    by simp
  \<comment> \<open>the orchestrator as its constructor leaves it\<close>
  note c1 = S [where d = falabella_payload and u = ?fu,
      THEN conjunct2, THEN conjunct2, THEN conjunct2, THEN conjunct2, THEN conjunct2,
      THEN conjunct2, THEN conjunct2, THEN conjunct1, THEN mp, OF claims]
  have h3: "\<forall>p \<in> set (ProductExtractorService.strategies ?svc). canHandle p generic_payload ?eu = Inr False"
    using reg0 declines by simp
  note c2 = S [where svc = ?svc and d = generic_payload and u = ?eu,
      THEN conjunct2, THEN conjunct1, THEN mp, OF h3]
  have fb: "fallbackStrategy ?svc = GenericStrategy ?P"
    using S [THEN conjunct2, THEN conjunct2, THEN conjunct2, THEN conjunct1] .
  note c3 = S [where d = generic_payload and u = ?eu,
      THEN conjunct2, THEN conjunct2, THEN conjunct2, THEN conjunct2, THEN conjunct2,
      THEN conjunct2, THEN conjunct2, THEN conjunct2, THEN conjunct1, THEN mp, OF declines]
  \<comment> \<open>two registrations, the earlier one selected\<close>
  have h4: "(\<forall>p \<in> set (ProductExtractorService.strategies ?svc). canHandle p generic_payload ?eu = Inr False) \<and>
      canHandle ?A generic_payload ?eu = Inr True"
    using h3 Aclaims by simp
  note d1 = S [where svc = ?svc and a = ?A and b = ?B and d = generic_payload and u = ?eu,
      THEN conjunct2, THEN conjunct2, THEN conjunct2, THEN conjunct2, THEN conjunct2,
      THEN conjunct2, THEN conjunct2, THEN conjunct2, THEN conjunct2, THEN conjunct2,
      THEN conjunct2, THEN conjunct2, THEN conjunct2, THEN conjunct2, THEN conjunct2,
      THEN conjunct2, THEN conjunct2, THEN conjunct2, THEN conjunct1, THEN mp, OF h4]
  \<comment> \<open>the real-estate orchestrator\<close>
  have RAclaims: "canHandle ?RA generic_payload v = Inr True"
    and RAextract: "extract' ?RA generic_payload v None = Inr []"
    and RAname: "name ?RA = ''A''" for v
    by (simp_all add: claiming_strategy_def)
  have re: "RealEstateExtractor_findStrategy
        (RealEstateExtractor_registerStrategy
           (RealEstateExtractor_registerStrategy (new_RealEstateExtractorService ex) ?RA) ?RB)
        generic_payload ?eu = Inr (Some ?RA)
      \<and> strategyUsed (RealEstateExtractionResult.metadata
        (extractListings
           (RealEstateExtractor_registerStrategy
              (RealEstateExtractor_registerStrategy (new_RealEstateExtractorService ex) ?RA) ?RB)
           7 generic_payload ?eu None)) = Some ''A''
      \<and> strategyUsed (RealEstateExtractionResult.metadata
        (extractListings
           (RealEstateExtractor_registerStrategy
              (RealEstateExtractor_registerStrategy (new_RealEstateExtractorService ex) ?RA) ?RB)
           7 generic_payload ?uu None)) = Some ''Urbania''
      \<and> RealEstateExtractor_findStrategy (new_RealEstateExtractorService ex) generic_payload ?eu =
          Inr None" for ex
  proof -
    let ?r = "new_RealEstateExtractorService ex"
    let ?U = "UrbaniaStrategy ex"
    let ?r3 = "RealEstateExtractor_registerStrategy (RealEstateExtractor_registerStrategy ?r ?RA) ?RB"
    note R = strategy_selection [where now = 7 and j = None and ex = ex]
    have r0: "RealEstateExtractorService.strategies ?r = [?U]"
      using R [THEN conjunct2, THEN conjunct2, THEN conjunct2, THEN conjunct2, THEN conjunct2, THEN conjunct2, THEN conjunct2, THEN conjunct2, THEN conjunct2,
        THEN conjunct2, THEN conjunct2, THEN conjunct2, THEN conjunct2, THEN conjunct2,
        THEN conjunct2, THEN conjunct2, THEN conjunct2, THEN conjunct1] .
    have r3: "RealEstateExtractorService.strategies ?r3 = [?U, ?RA, ?RB]"
      using r0
      by (simp add: RealEstateExtractor_registerStrategy_def)
    have udecl: "canHandle ?U generic_payload ?eu = Inr False"
      by (rule Urbania_declines)
    have uclaims: "canHandle ?U generic_payload ?uu = Inr True"
      by (simp add: UrbaniaStrategy_def Urbania_canHandle_def)
    have uextract: "extract' ?U generic_payload ?uu None = Inr (ex generic_payload ?uu None)"
      and uname: "name ?U = ''Urbania''"
      by (simp_all add: UrbaniaStrategy_def)
    have k1: "RealEstateExtractorService.strategies ?r3 = [?U] @ ?RA # [?RB] \<and>
        (\<forall>p \<in> set [?U]. canHandle p generic_payload ?eu = Inr False) \<and>
        canHandle ?RA generic_payload ?eu = Inr True"
      using r3 udecl RAclaims by simp
    note e1 = R [where rsvc = ?r3 and rpre = "[?U]" and r = ?RA and rpost = "[?RB]"
        and d = generic_payload and u = ?eu,
        THEN conjunct2, THEN conjunct2, THEN conjunct2, THEN conjunct2, THEN conjunct2, THEN conjunct2, THEN conjunct2, THEN conjunct2, THEN conjunct2, THEN conjunct1, THEN mp, OF k1]
    have k2: "RealEstateExtractorService.strategies ?r3 = [] @ ?U # [?RA, ?RB] \<and>
        (\<forall>p \<in> set []. canHandle p generic_payload ?uu = Inr False) \<and>
        canHandle ?U generic_payload ?uu = Inr True"
      using r3 uclaims by simp
    note e2 = R [where rsvc = ?r3 and rpre = "[]" and r = ?U and rpost = "[?RA, ?RB]"
        and d = generic_payload and u = ?uu,
        THEN conjunct2, THEN conjunct2, THEN conjunct2, THEN conjunct2, THEN conjunct2, THEN conjunct2, THEN conjunct2, THEN conjunct2, THEN conjunct2, THEN conjunct1, THEN mp, OF k2]
    have k3: "\<forall>p \<in> set (RealEstateExtractorService.strategies ?r). canHandle p generic_payload ?eu = Inr False"
      using r0 udecl by simp
    note e3 = R [where rsvc = ?r and d = generic_payload and u = ?eu,
        THEN conjunct2, THEN conjunct2, THEN conjunct2, THEN conjunct2, THEN conjunct2, THEN conjunct2, THEN conjunct2, THEN conjunct2, THEN conjunct2,
        THEN conjunct2, THEN conjunct1, THEN mp, OF k3, THEN conjunct1]
    have k4: "(\<forall>p \<in> set (RealEstateExtractorService.strategies ?r). canHandle p generic_payload ?eu = Inr False) \<and>
        canHandle ?RA generic_payload ?eu = Inr True"
      using k3 RAclaims by simp
    note e4 = R [where rsvc = ?r and ra = ?RA and rb = ?RB and d = generic_payload and u = ?eu,
        THEN conjunct2, THEN conjunct2, THEN conjunct2, THEN conjunct2, THEN conjunct2, THEN conjunct2, THEN conjunct2, THEN conjunct2, THEN conjunct2,
        THEN conjunct2, THEN conjunct2, THEN conjunct2, THEN conjunct2, THEN conjunct2,
        THEN conjunct2, THEN conjunct2, THEN conjunct2, THEN conjunct2, THEN conjunct2, THEN mp, OF k4]
    from e1 RAextract RAname
    have "strategyUsed (RealEstateExtractionResult.metadata
        (extractListings ?r3 7 generic_payload ?eu None)) = Some ''A''"
      by simp
    moreover from e2 uextract uname
    have "strategyUsed (RealEstateExtractionResult.metadata
        (extractListings ?r3 7 generic_payload ?uu None)) = Some ''Urbania''"
      by simp
    ultimately show ?thesis
      using e3 e4 by simp
  qed
  show ?thesis
    using reg3 d1 a2 b2 c1 c2 fb c3 re by simp
qed

section \<open>Currency inference and record filtering\<close>










text \<open>
  Claim C10 at the payload \<^verbatim>\<open>[{id: [], name: "Widget"}]\<close>: the record passes
  \<^verbatim>\<open>looksLikeProduct\<close>, since an empty array is truthy, and \<^verbatim>\<open>String([])\<close> is the empty string,
  so the generic strategy, and the orchestrator through it, return a product whose productId
  is empty and whose uniqueKey ends at the colon. The Falabella strategy keeps the record
  \<^verbatim>\<open>{productId: [], displayName: "Phone X"}\<close> the same way, with the empty array as
  productId.
\<close>

theorem empty_productId_evaluation:
  "map productId (Generic_extract example_platform empty_id_payload ''https://example.com/catalog'' None) =
     [JStr []]
   \<and> map (Product_uniqueKey example_platform)
       (Generic_extract example_platform empty_id_payload ''https://example.com/catalog'' None) =
     [Some ''example:'']
   \<and> map productId (products (extractProducts (new_ProductExtractorService example_platform) 7
       empty_id_payload ''https://example.com/catalog'' None)) = [JStr []]
   \<and> map (\<lambda>p. (productId p, Product_uniqueKey example_platform p))
       (Falabella_extract example_platform
          (JObj [(''productId'', JArr []), (''displayName'', JStr ''Phone X'')])
          ''https://example.com/catalog'' None) = [(JArr [], Some ''example:'')]"
proof -
  have "Generic_extract example_platform empty_id_payload ''https://example.com/catalog'' None =
     [\<lparr> productId = JStr [], name = JStr ''Widget'',
        Product.price = \<lparr> amount = Num 0, currency = ''USD'', label = JUndefined,
                          isCrossed = JUndefined, price_type = JUndefined \<rparr>,
        Product.source = \<lparr> domain = ''example'', url = JStr ''https://example.com/catalog'',
                           jobId = None \<rparr> \<rparr>]"
    by (simp add: Generic_extract_def Generic_extract_try_def empty_id_payload_def js_defs
        looksLikeProduct_def map_throwing_def Generic_normalizeProduct_def
        Generic_extractPrice_def parsePrice_def createBaseProduct_def String_if_truthy_def
        Generic_extractImageUrls_def example_domains source_jobId_def Let_def)
  moreover have "\<not> Falabella_canHandle empty_id_payload ''https://example.com/catalog''"
    by (simp add: Falabella_canHandle_def empty_id_payload_def js_defs)
  moreover have "Falabella_extract example_platform
          (JObj [(''productId'', JArr []), (''displayName'', JStr ''Phone X'')])
          ''https://example.com/catalog'' None =
     [\<lparr> productId = JArr [], name = JStr ''Phone X'',
        Product.price = \<lparr> amount = Num 0, currency = ''USD'', label = JUndefined,
                          isCrossed = JUndefined, price_type = JUndefined \<rparr>,
        Product.source = \<lparr> domain = ''example'', url = JStr ''https://example.com/catalog'',
                           jobId = None \<rparr> \<rparr>]"
    by (simp add: Falabella_extract_def Falabella_extract_try_def js_defs
        Falabella_keeps_def map_throwing_def Falabella_normalizeProduct_def
        Falabella_extractPrice_def parsePrice_def parseFloat_cleaned_def is_digit_def
        decimal_value_def extractCurrency_def currencyMap_def Falabella_nextDay_def
        Falabella_specifications_def example_domains source_jobId_def Let_def)
  ultimately show ?thesis
    by (simp add: default_product_result Product_uniqueKey_def ProductStorage_generateUniqueKey_def)
qed

end
